theory Spec2Isabelle
  imports Main "HOL-Library.AList"
begin

section \<open>JavaScript values\<close>

text \<open>
  The values that travel through the RPC layer: what \<open>JSON.parse\<close> and the msgpack
  decoder produce, what handlers return and what \<open>JSON.stringify\<close> receives. An object is
  the list of its own properties in insertion order, each key once. A number is held as
  its decimal rendering, the string that \<open>String(n)\<close> returns for it (\<open>42\<close>, \<open>-1.5\<close>,
  \<open>1e+21\<close>, \<open>NaN\<close>): the code never computes with a number, it prints and tests it.
  Values are data: no property holds a function.
\<close>

datatype jsval =
    JUndefined
  | JNull
  | JBool bool
  | JNum string
  | JStr string
  | JArr "jsval list"
  | JObj "(string \<times> jsval) list"

text \<open>
  A thrown value: an \<open>Error\<close> object with its message (\<open>new Error(m)\<close>, or the
  \<open>TypeError\<close> the engine raises), or any other value (\<open>throw "x"\<close>, \<open>throw {code: 1}\<close>).
\<close>

datatype thrown = ThrownError string | ThrownValue jsval

text \<open>
  The property read \<open>v.p\<close> for a property name that no built-in prototype defines
  (\<open>id\<close>, \<open>method\<close>, \<open>args\<close>, \<open>ok\<close>, \<open>result\<close>, \<open>error\<close>, \<open>stats\<close>, \<open>message\<close>):
  reading from \<open>null\<close> or \<open>undefined\<close> raises a TypeError, a primitive or an array
  has no such property, an object yields the property or \<open>undefined\<close>.
\<close>

fun get_prop :: "jsval \<Rightarrow> string \<Rightarrow> thrown + jsval" where
  "get_prop JUndefined p = Inl (ThrownError (''Cannot read properties of undefined (reading '' @ p @ '')''))"
| "get_prop JNull p = Inl (ThrownError (''Cannot read properties of null (reading '' @ p @ '')''))"
| "get_prop (JObj fs) p = Inr (case map_of fs p of None \<Rightarrow> JUndefined | Some v \<Rightarrow> v)"
| "get_prop v p = Inr JUndefined"

text \<open>The read \<open>v.p\<close> where \<open>v\<close> is already known not to be \<open>null\<close> or \<open>undefined\<close>.\<close>

definition read_prop :: "jsval \<Rightarrow> string \<Rightarrow> jsval" where
  "read_prop v p = (case get_prop v p of Inl t \<Rightarrow> JUndefined | Inr x \<Rightarrow> x)"

text \<open>Optional chaining \<open>v?.p\<close> and nullish coalescing \<open>v ?? d\<close>.\<close>

definition opt_prop :: "jsval \<Rightarrow> string \<Rightarrow> jsval" where
  "opt_prop v p = (if v = JUndefined \<or> v = JNull then JUndefined else read_prop v p)"

definition nullish_or :: "jsval \<Rightarrow> jsval \<Rightarrow> jsval" where
  "nullish_or v d = (if v = JUndefined \<or> v = JNull then d else v)"

text \<open>JavaScript truthiness, as \<open>if (msg.ok)\<close> tests it.\<close>

fun truthy :: "jsval \<Rightarrow> bool" where
  "truthy JUndefined = False"
| "truthy JNull = False"
| "truthy (JBool b) = b"
| "truthy (JNum n) = (n \<noteq> ''0'' \<and> n \<noteq> ''NaN'')"
| "truthy (JStr s) = (s \<noteq> [])"
| "truthy (JArr xs) = True"
| "truthy (JObj fs) = True"

fun join_comma :: "string list \<Rightarrow> string" where
  "join_comma [] = []"
| "join_comma [s] = s"
| "join_comma (s # t # ss) = s @ '','' @ join_comma (t # ss)"

text \<open>
  The string conversion of a template literal \<open>`${v}`\<close> and of \<open>String(v)\<close>; \<open>None\<close>
  where it throws a TypeError. An array joins the conversions of its elements with
  commas (\<open>null\<close> and \<open>undefined\<close> elements print as nothing). An object without an own
  property \<open>toString\<close> prints as \<open>[object Object]\<close>; with one, which is not a function,
  neither \<open>toString\<close> nor \<open>valueOf\<close> yields a primitive and the conversion throws.
\<close>

fun js_string_of :: "jsval \<Rightarrow> string option" where
  "js_string_of JUndefined = Some ''undefined''"
| "js_string_of JNull = Some ''null''"
| "js_string_of (JBool b) = Some (if b then ''true'' else ''false'')"
| "js_string_of (JNum n) = Some n"
| "js_string_of (JStr s) = Some s"
| "js_string_of (JArr xs) =
     map_option join_comma
       (those (map (\<lambda>x. if x = JUndefined \<or> x = JNull then Some [] else js_string_of x) xs))"
| "js_string_of (JObj fs) =
     (if ''toString'' \<in> set (map fst fs) then None else Some ''[object Object]'')"

definition cannot_convert :: thrown where
  "cannot_convert = ThrownError ''Cannot convert object to primitive value''"

text \<open>
  The value that the text \<open>JSON.stringify(v)\<close> denotes: a property whose value is
  \<open>undefined\<close> is left out, an \<open>undefined\<close> array element and a number that is not finite
  are written as \<open>null\<close>.
\<close>

fun wire :: "jsval \<Rightarrow> jsval" where
  "wire JUndefined = JUndefined"
| "wire JNull = JNull"
| "wire (JBool b) = JBool b"
| "wire (JNum n) = (if n = ''NaN'' \<or> n = ''Infinity'' \<or> n = ''-Infinity'' then JNull else JNum n)"
| "wire (JStr s) = JStr s"
| "wire (JArr xs) = JArr (map (\<lambda>x. if x = JUndefined then JNull else wire x) xs)"
| "wire (JObj fs) = JObj (map (\<lambda>kv. (fst kv, wire (snd kv))) (filter (\<lambda>kv. snd kv \<noteq> JUndefined) fs))"


section \<open>Server: the RPC registry and its dispatcher\<close>

text \<open>
  A method handler \<open>(args, ctx) => result\<close>: it returns a value (or a promise that
  resolves to one), or it throws (or its promise rejects). The dispatcher awaits it, so
  both failures arrive at the same \<open>catch\<close>.
\<close>

type_synonym method_handler = "jsval \<Rightarrow> jsval \<Rightarrow> thrown + jsval"

record HeliumMethodDef =
  def_id :: string
  handler :: method_handler

record MiddlewareContext =
  ctx :: jsval
  ctx_type :: string
  methodName :: jsval

text \<open>
  What a middleware function does with its two arguments, as far as the dispatcher can
  tell: it returns, it throws, it mutates the shared \<open>ctx\<close> object, or it calls and awaits
  \<open>next()\<close> and goes on according to whether that promise resolved (\<open>None\<close>) or rejected
  (\<open>Some e\<close>). A middleware may call \<open>next\<close> several times.
\<close>

datatype mw_prog =
    MwReturn
  | MwThrow thrown
  | MwSetCtx jsval mw_prog
  | MwNext "thrown option \<Rightarrow> mw_prog"

type_synonym MiddlewareFunction = "MiddlewareContext \<Rightarrow> mw_prog"

record RpcRegistry =
  methods :: "string \<rightharpoonup> HeliumMethodDef"
  middleware :: "MiddlewareFunction option"

definition new_RpcRegistry :: RpcRegistry where
  "new_RpcRegistry = \<lparr>methods = Map.empty, middleware = None\<rparr>"

definition register :: "string \<Rightarrow> HeliumMethodDef \<Rightarrow> RpcRegistry \<Rightarrow> RpcRegistry" where
  "register i d reg = reg\<lparr>methods := (methods reg)(i \<mapsto> d\<lparr>def_id := i\<rparr>)\<rparr>"

definition setMiddleware :: "MiddlewareFunction \<Rightarrow> RpcRegistry \<Rightarrow> RpcRegistry" where
  "setMiddleware m reg = reg\<lparr>middleware := Some m\<rparr>"

text \<open>
  \<open>this.methods.get(k)\<close>: the keys of the map are strings, so a key of any other type
  finds nothing.
\<close>

definition methods_get :: "RpcRegistry \<Rightarrow> jsval \<Rightarrow> HeliumMethodDef option" where
  "methods_get reg k = (case k of JStr s \<Rightarrow> methods reg s | _ \<Rightarrow> None)"

text \<open>
  The variables the \<open>next\<close> closure shares with \<open>handleMessage\<close>: \<open>nextCalled\<close>,
  \<open>result\<close>, the \<open>ctx\<close> object, and a count of the handler's invocations.
\<close>

record mw_env =
  nextCalled :: bool
  result :: jsval
  cur_ctx :: jsval
  handler_calls :: nat

primrec run_mw :: "mw_prog \<Rightarrow> (jsval \<Rightarrow> thrown + jsval) \<Rightarrow> mw_env \<Rightarrow> thrown option \<times> mw_env" where
  "run_mw MwReturn h e = (None, e)"
| "run_mw (MwThrow t) h e = (Some t, e)"
| "run_mw (MwSetCtx c p) h e = run_mw p h (e\<lparr>cur_ctx := c\<rparr>)"
| "run_mw (MwNext k) h e =
     (case h (cur_ctx e) of
        Inl t \<Rightarrow> run_mw (k (Some t)) h (e\<lparr>nextCalled := True, handler_calls := Suc (handler_calls e)\<rparr>)
      | Inr r \<Rightarrow> run_mw (k None) h
                 (e\<lparr>nextCalled := True, handler_calls := Suc (handler_calls e), result := r\<rparr>))"

text \<open>The three response objects \<open>handleMessage\<close> builds.\<close>

definition failure_response :: "jsval \<Rightarrow> jsval \<Rightarrow> jsval" where
  "failure_response i msg =
     JObj [(''id'', i), (''ok'', JBool False), (''error'', JObj [(''message'', msg)])]"

definition success_response :: "jsval \<Rightarrow> jsval \<Rightarrow> jsval" where
  "success_response i r = JObj [(''id'', i), (''ok'', JBool True), (''result'', r)]"

text \<open>\<open>err?.message ?? "Server error"\<close>\<close>

definition err_message :: "thrown \<Rightarrow> jsval" where
  "err_message t =
     (case t of
        ThrownError m \<Rightarrow> JStr m
      | ThrownValue v \<Rightarrow> nullish_or (opt_prop v ''message'') (JStr ''Server error''))"

text \<open>
  What one call of \<open>handleMessage\<close> did: the frames it passed to \<open>socket.send\<close> (before
  \<open>JSON.stringify\<close>), in order; how often the target handler ran; and whether the call's
  promise rejected (\<open>Some e\<close>: an exception left the dispatcher).
\<close>

record dispatch =
  sent :: "jsval list"
  invoked :: nat
  escaped :: "thrown option"

text \<open>
  \<open>RpcRegistry.handleMessage(socket, raw)\<close>. \<open>JSON_parse\<close> is the platform's parser:
  \<open>None\<close> where it throws a SyntaxError. The read of \<open>req.method\<close> and the template
  literal of the unknown-method message stand outside both \<open>try\<close> blocks: what they
  throw leaves the dispatcher.
\<close>

text \<open>The frames on the wire: each object sent, as \<open>JSON.stringify\<close> writes it.\<close>

definition emitted :: "dispatch \<Rightarrow> jsval list" where
  "emitted d = map wire (sent d)"

definition handleMessage :: "(string \<Rightarrow> jsval option) \<Rightarrow> RpcRegistry \<Rightarrow> string \<Rightarrow> dispatch" where
  "handleMessage JSON_parse reg raw =
     (case JSON_parse raw of
        None \<Rightarrow> \<lparr>sent = [], invoked = 0, escaped = None\<rparr>
      | Some req \<Rightarrow>
         (case get_prop req ''method'' of
            Inl t \<Rightarrow> \<lparr>sent = [], invoked = 0, escaped = Some t\<rparr>
          | Inr m \<Rightarrow>
             (case methods_get reg m of
                None \<Rightarrow>
                 (case js_string_of m of
                    None \<Rightarrow> \<lparr>sent = [], invoked = 0, escaped = Some cannot_convert\<rparr>
                  | Some name \<Rightarrow>
                      \<lparr>sent = [failure_response (read_prop req ''id'') (JStr (''Unknown method '' @ name))],
                       invoked = 0, escaped = None\<rparr>)
              | Some d \<Rightarrow>
                 (case middleware reg of
                    Some mw \<Rightarrow>
                     (case run_mw (mw \<lparr>ctx = JObj [], ctx_type = ''method'', methodName = m\<rparr>)
                             (handler d (read_prop req ''args''))
                             \<lparr>nextCalled = False, result = JUndefined, cur_ctx = JObj [], handler_calls = 0\<rparr> of
                        (Some t, e) \<Rightarrow>
                          \<lparr>sent = [failure_response (read_prop req ''id'') (err_message t)],
                           invoked = handler_calls e, escaped = None\<rparr>
                      | (None, e) \<Rightarrow>
                          if \<not> nextCalled e then
                            \<lparr>sent = [failure_response (read_prop req ''id'') (JStr ''Request blocked by middleware'')],
                             invoked = handler_calls e, escaped = None\<rparr>
                          else
                            \<lparr>sent = [success_response (read_prop req ''id'') (result e)],
                             invoked = handler_calls e, escaped = None\<rparr>)
                  | None \<Rightarrow>
                     (case handler d (read_prop req ''args'') (JObj []) of
                        Inl t \<Rightarrow>
                          \<lparr>sent = [failure_response (read_prop req ''id'') (err_message t)],
                           invoked = 1, escaped = None\<rparr>
                      | Inr r \<Rightarrow>
                          \<lparr>sent = [success_response (read_prop req ''id'') r],
                           invoked = 1, escaped = None\<rparr>)))))"


section \<open>Client: decoding, the pending table and the shared connection\<close>

datatype encoding = Json | Msgpack

text \<open>
  \<open>event.data\<close> of a message event (\<open>binaryType\<close> is \<open>"arraybuffer"\<close>): an
  \<open>ArrayBuffer\<close> for a binary frame, a string for a text frame.
\<close>

datatype event_data = ArrayBuffer "nat list" | TextData string

text \<open>
  The library decoders, \<open>None\<close> where they throw: \<open>JSON.parse\<close> on a string,
  \<open>msgpackDecode(new Uint8Array(buf))\<close> on an array buffer, and the same expression
  applied to a string, as the fallback branch of \<open>onmessage\<close> writes it.
\<close>

record decoders =
  JSON_parse :: "string \<Rightarrow> jsval option"
  msgpackDecode :: "nat list \<Rightarrow> jsval option"
  msgpackDecode_text :: "string \<Rightarrow> jsval option"

datatype format = TriedJSON | TriedMsgpack

text \<open>\<open>window.HELIUM_RPC_ENCODING || "msgpack"\<close>\<close>

definition clientEncoding :: "encoding option \<Rightarrow> encoding" where
  "clientEncoding advertised = (case advertised of None \<Rightarrow> Msgpack | Some e \<Rightarrow> e)"

text \<open>
  The decoding part of \<open>ws.onmessage\<close> (the first twenty lines of the handler): the
  decoders it tried, in order, and the message, or \<open>None\<close> when the decode error leaves
  the handler.
\<close>

definition decode_message :: "decoders \<Rightarrow> encoding option \<Rightarrow> event_data \<Rightarrow> format list \<times> jsval option" where
  "decode_message d advertised data =
     (case data of
        ArrayBuffer bytes \<Rightarrow> ([TriedMsgpack], msgpackDecode d bytes)
      | TextData s \<Rightarrow>
          if clientEncoding advertised = Json then ([TriedJSON], JSON_parse d s)
          else (case JSON_parse d s of
                  Some msg \<Rightarrow> ([TriedJSON], Some msg)
                | None \<Rightarrow> ([TriedJSON, TriedMsgpack], msgpackDecode_text d s)))"

datatype 'a promise_state = Pending | Fulfilled 'a | Rejected thrown

text \<open>Calling \<open>resolve\<close> or \<open>reject\<close> of a promise that is already settled does nothing.\<close>

definition settle :: "'a promise_state \<Rightarrow> 'a promise_state \<Rightarrow> 'a promise_state" where
  "settle new old = (if old = Pending then new else old)"

datatype readyState = CONNECTING | OPEN | CLOSING | CLOSED

datatype ws_event = Open | Error | Close

text \<open>
  The callbacks attached to a socket. \<open>OnClose\<close> is the \<open>ws.onclose\<close> property that
  \<open>createSocket\<close> assigns; the other three are the closures \<open>handleOpen\<close>, \<open>handleError\<close>
  and \<open>handleClose\<close> of the executor of connection promise \<open>p\<close>.
\<close>

datatype listener = OnClose | HandleOpen nat | HandleError nat | HandleClose nat

fun listens_to :: "listener \<Rightarrow> ws_event" where
  "listens_to OnClose = Close"
| "listens_to (HandleOpen p) = Open"
| "listens_to (HandleError p) = Error"
| "listens_to (HandleClose p) = Close"

text \<open>
  A \<open>WebSocket\<close> object: its ready state and its listeners in the order they were
  registered. An event-handler property takes its place in that order when it is first
  assigned, so \<open>OnClose\<close> precedes every listener added after \<open>createSocket\<close> returned.
\<close>

record websocket =
  readyState :: readyState
  listeners :: "listener list"

text \<open>
  The module state of \<open>rpcClient.ts\<close>: the variables \<open>socket\<close>, \<open>connectionPromise\<close>
  and \<open>pending\<close>, and the objects they refer to. Sockets and promises are referred to
  by number; \<open>next_socket\<close> is also the number of sockets created so far. An entry of
  \<open>pending\<close> is the pair of \<open>resolve\<close> and \<open>reject\<close> of one call promise, named by that
  promise. \<open>outbox\<close> lists the frames passed to \<open>ws.send\<close>, \<open>uncaught\<close> the exceptions
  that left an event listener.
\<close>

record client =
  socket :: "nat option"
  connectionPromise :: "nat option"
  pending :: "string \<rightharpoonup> nat"
  sockets :: "nat \<Rightarrow> websocket"
  next_socket :: nat
  conn_promises :: "nat \<Rightarrow> nat promise_state"
  next_conn_promise :: nat
  call_promises :: "nat \<Rightarrow> jsval promise_state"
  next_call_promise :: nat
  outbox :: "(nat \<times> event_data) list"
  uncaught :: "thrown list"

definition initial_client :: client where
  "initial_client =
     \<lparr>socket = None, connectionPromise = None, pending = Map.empty,
      sockets = (\<lambda>_. \<lparr>readyState = CLOSED, listeners = []\<rparr>), next_socket = 0,
      conn_promises = (\<lambda>_. Pending), next_conn_promise = 0,
      call_promises = (\<lambda>_. Pending), next_call_promise = 0,
      outbox = [], uncaught = []\<rparr>"

subsection \<open>Inbound frames\<close>

text \<open>\<open>pending.get(k)\<close> and \<open>pending.delete(k)\<close>: the keys of the map are strings.\<close>

definition pending_get :: "client \<Rightarrow> jsval \<Rightarrow> nat option" where
  "pending_get st k = (case k of JStr s \<Rightarrow> pending st s | _ \<Rightarrow> None)"

definition pending_delete :: "jsval \<Rightarrow> client \<Rightarrow> client" where
  "pending_delete k st = (case k of JStr s \<Rightarrow> st\<lparr>pending := (pending st)(s := None)\<rparr> | _ \<Rightarrow> st)"

definition resolve_call :: "nat \<Rightarrow> jsval \<Rightarrow> client \<Rightarrow> client" where
  "resolve_call p v st = st\<lparr>call_promises := (call_promises st)(p := settle (Fulfilled v) (call_promises st p))\<rparr>"

definition reject_call :: "nat \<Rightarrow> thrown \<Rightarrow> client \<Rightarrow> client" where
  "reject_call p e st = st\<lparr>call_promises := (call_promises st)(p := settle (Rejected e) (call_promises st p))\<rparr>"

text \<open>
  The second half of \<open>ws.onmessage\<close>, from \<open>pending.get(msg.id)\<close> on: \<open>Inl\<close> is an
  exception that leaves the handler.
\<close>

definition deliver :: "jsval \<Rightarrow> client \<Rightarrow> thrown + client" where
  "deliver msg st =
     (case get_prop msg ''id'' of
        Inl t \<Rightarrow> Inl t
      | Inr i \<Rightarrow>
         (case pending_get st i of
            None \<Rightarrow> Inr st
          | Some entry \<Rightarrow>
              if truthy (read_prop msg ''ok'')
              then Inr (resolve_call entry
                          (JObj [(''data'', read_prop msg ''result''), (''stats'', read_prop msg ''stats'')])
                          (pending_delete i st))
              else Inr (reject_call entry
                          (ThrownValue (JObj [(''error'', read_prop msg ''error''), (''stats'', read_prop msg ''stats'')]))
                          (pending_delete i st))))"

definition ws_onmessage :: "decoders \<Rightarrow> encoding option \<Rightarrow> event_data \<Rightarrow> client \<Rightarrow> thrown + client" where
  "ws_onmessage d advertised data st =
     (case snd (decode_message d advertised data) of
        None \<Rightarrow> Inl (ThrownError ''decode error'')
      | Some msg \<Rightarrow> deliver msg st)"

subsection \<open>Outbound calls\<close>

text \<open>
  The encoders and the socket's \<open>send\<close>, each of which may throw: \<open>msgpackEncode\<close>,
  \<open>JSON.stringify\<close>, and \<open>ws.send\<close> on socket \<open>ws\<close> (\<open>Some e\<close> where it throws \<open>e\<close>).
\<close>

record transport =
  msgpackEncode :: "jsval \<Rightarrow> thrown + nat list"
  JSON_stringify :: "jsval \<Rightarrow> thrown + string"
  ws_send :: "nat \<Rightarrow> event_data \<Rightarrow> thrown option"

text \<open>The \<open>try\<close> block of \<open>rpcCall\<close>: the frame it sent, or what it threw.\<close>

definition try_send :: "transport \<Rightarrow> encoding option \<Rightarrow> nat \<Rightarrow> jsval \<Rightarrow> thrown + event_data" where
  "try_send tr advertised ws req =
     (if clientEncoding advertised = Msgpack then
        (case msgpackEncode tr req of
           Inl e \<Rightarrow> Inl e
         | Inr encoded \<Rightarrow>
            (case ws_send tr ws (ArrayBuffer encoded) of
               Some e \<Rightarrow> Inl e
             | None \<Rightarrow> Inr (ArrayBuffer encoded)))
      else
        (case JSON_stringify tr req of
           Inl e \<Rightarrow> Inl e
         | Inr text \<Rightarrow>
            (case ws_send tr ws (TextData text) of
               Some e \<Rightarrow> Inl e
             | None \<Rightarrow> Inr (TextData text))))"

text \<open>
  \<open>rpcCall\<close> from the point where \<open>await ensureSocketReady()\<close> has delivered the socket
  \<open>ws\<close> and \<open>uuid()\<close> has returned \<open>i\<close>: it creates the call's promise, registers the
  entry, and sends. It returns the promise.
\<close>

definition rpcCall :: "transport \<Rightarrow> encoding option \<Rightarrow> nat \<Rightarrow> string \<Rightarrow> string \<Rightarrow> jsval \<Rightarrow> client \<Rightarrow> nat \<times> client" where
  "rpcCall tr advertised ws i methodId args st =
     (let p = next_call_promise st;
          st1 = st\<lparr>call_promises := (call_promises st)(p := Pending), next_call_promise := Suc p\<rparr>;
          st2 = st1\<lparr>pending := (pending st1)(i \<mapsto> p)\<rparr>
      in case try_send tr advertised ws (JObj [(''id'', JStr i), (''method'', JStr methodId), (''args'', args)]) of
           Inr frame \<Rightarrow> (p, st2\<lparr>outbox := outbox st2 @ [(ws, frame)]\<rparr>)
         | Inl err \<Rightarrow> (p, reject_call p err (pending_delete (JStr i) st2)))"

subsection \<open>The shared connection\<close>

definition createSocket :: "client \<Rightarrow> nat \<times> client" where
  "createSocket st =
     (let ws = next_socket st
      in (ws, st\<lparr>sockets := (sockets st)(ws := \<lparr>readyState = CONNECTING, listeners = [OnClose]\<rparr>),
                 next_socket := Suc ws\<rparr>))"

definition addEventListener :: "nat \<Rightarrow> listener \<Rightarrow> client \<Rightarrow> client" where
  "addEventListener ws l st =
     (let s = sockets st ws
      in st\<lparr>sockets := (sockets st)(ws := s\<lparr>listeners := (if l \<in> set (listeners s) then listeners s else listeners s @ [l])\<rparr>)\<rparr>)"

definition removeEventListener :: "nat \<Rightarrow> listener \<Rightarrow> client \<Rightarrow> client" where
  "removeEventListener ws l st =
     (let s = sockets st ws
      in st\<lparr>sockets := (sockets st)(ws := s\<lparr>listeners := removeAll l (listeners s)\<rparr>)\<rparr>)"

text \<open>
  \<open>connectionPromise = new Promise(executor)\<close>, with the variable \<open>socket\<close> holding \<open>ws\<close>:
  the executor attaches the three listeners to \<open>socket!\<close>.
\<close>

definition new_connectionPromise :: "nat \<Rightarrow> client \<Rightarrow> nat \<times> client" where
  "new_connectionPromise ws st =
     (let p = next_conn_promise st;
          st1 = st\<lparr>conn_promises := (conn_promises st)(p := Pending), next_conn_promise := Suc p\<rparr>;
          st2 = addEventListener ws (HandleClose p)
                  (addEventListener ws (HandleError p)
                    (addEventListener ws (HandleOpen p) st1))
      in (p, st2\<lparr>connectionPromise := Some p\<rparr>))"

definition ensureSocketReady :: "client \<Rightarrow> nat \<times> client" where
  "ensureSocketReady st =
     (case (case socket st of None \<Rightarrow> None | Some ws \<Rightarrow> Some (ws, readyState (sockets st ws))) of
        Some (ws, OPEN) \<Rightarrow>
          (let p = next_conn_promise st
           in (p, st\<lparr>conn_promises := (conn_promises st)(p := Fulfilled ws), next_conn_promise := Suc p\<rparr>))
      | cur \<Rightarrow>
         (case connectionPromise st of
            Some p \<Rightarrow> (p, st)
          | None \<Rightarrow>
             (case cur of
                Some (ws, CONNECTING) \<Rightarrow> new_connectionPromise ws st
              | _ \<Rightarrow>
                 (case createSocket st of
                    (ws, st1) \<Rightarrow> new_connectionPromise ws (st1\<lparr>socket := Some ws\<rparr>)))))"

text \<open>
  \<open>cleanup()\<close> of the executor of promise \<open>p\<close>: it reads the variable \<open>socket\<close> at the time
  it runs, and throws a TypeError (\<open>None\<close>) when that is \<open>null\<close>; otherwise it returns the
  socket it read.
\<close>

definition cleanup :: "nat \<Rightarrow> client \<Rightarrow> (nat \<times> client) option" where
  "cleanup p st =
     (case socket st of
        None \<Rightarrow> None
      | Some ws \<Rightarrow>
          Some (ws, removeEventListener ws (HandleClose p)
                      (removeEventListener ws (HandleError p)
                        (removeEventListener ws (HandleOpen p) st))))"

definition resolve_conn :: "nat \<Rightarrow> nat \<Rightarrow> client \<Rightarrow> client" where
  "resolve_conn p ws st = st\<lparr>conn_promises := (conn_promises st)(p := settle (Fulfilled ws) (conn_promises st p))\<rparr>"

definition reject_conn :: "nat \<Rightarrow> thrown \<Rightarrow> client \<Rightarrow> client" where
  "reject_conn p e st = st\<lparr>conn_promises := (conn_promises st)(p := settle (Rejected e) (conn_promises st p))\<rparr>"

definition null_deref :: thrown where
  "null_deref = ThrownError ''Cannot read properties of null (reading removeEventListener)''"

text \<open>One callback of socket \<open>ws\<close> runs. An exception ends that callback only.\<close>

fun run_listener :: "nat \<Rightarrow> listener \<Rightarrow> client \<Rightarrow> client" where
  "run_listener ws OnClose st =
     (if socket st = Some ws then st\<lparr>socket := None, connectionPromise := None\<rparr> else st)"
| "run_listener ws (HandleOpen p) st =
     (case cleanup p st of
        None \<Rightarrow> st\<lparr>uncaught := uncaught st @ [null_deref]\<rparr>
      | Some (s, st1) \<Rightarrow> resolve_conn p s (st1\<lparr>connectionPromise := None\<rparr>))"
| "run_listener ws (HandleError p) st =
     (case cleanup p st of
        None \<Rightarrow> st\<lparr>uncaught := uncaught st @ [null_deref]\<rparr>
      | Some (s, st1) \<Rightarrow>
          reject_conn p (ThrownError ''WebSocket connection failed'')
            (st1\<lparr>socket := None, connectionPromise := None\<rparr>))"
| "run_listener ws (HandleClose p) st =
     (case cleanup p st of
        None \<Rightarrow> st\<lparr>uncaught := uncaught st @ [null_deref]\<rparr>
      | Some (s, st1) \<Rightarrow>
          reject_conn p (ThrownError ''WebSocket closed before opening'')
            (st1\<lparr>socket := None, connectionPromise := None\<rparr>))"

text \<open>
  Event dispatch: the listeners registered for the event when the dispatch starts run in
  registration order; one that has been removed in the meantime is skipped.
\<close>

fun run_listeners :: "nat \<Rightarrow> listener list \<Rightarrow> client \<Rightarrow> client" where
  "run_listeners ws [] st = st"
| "run_listeners ws (l # ls) st =
     (if l \<in> set (listeners (sockets st ws)) then run_listeners ws ls (run_listener ws l st)
      else run_listeners ws ls st)"

fun state_after :: "ws_event \<Rightarrow> readyState" where
  "state_after Open = OPEN"
| "state_after Error = CLOSED"
| "state_after Close = CLOSED"

definition fire :: "ws_event \<Rightarrow> nat \<Rightarrow> client \<Rightarrow> client" where
  "fire ev ws st =
     (let st1 = st\<lparr>sockets := (sockets st)(ws := (sockets st ws)\<lparr>readyState := state_after ev\<rparr>)\<rparr>
      in run_listeners ws (filter (\<lambda>l. listens_to l = ev) (listeners (sockets st1 ws))) st1)"


section \<open>Server: the worker supervisor\<close>

datatype status = Running | Stopped | Crashed | Restarting

record WorkerOptions =
  opt_name :: string
  autoRestart :: bool
  restartDelayMs :: nat
  maxRestarts :: int
  autoStart :: bool

text \<open>
  What one invocation of a worker handler does: it throws before returning, it returns a
  promise that rejects, it returns (a value or a promise that resolves), or it returns a
  promise that never settles, as a worker that loops forever does.
\<close>

datatype run_result = ThrowsSync thrown | Rejects thrown | Completes | NeverSettles

text \<open>
  A worker definition. The handler is given by what its \<open>k\<close>-th invocation (from 0) does
  with the context it receives.
\<close>

record HeliumWorkerDef =
  worker_id :: string
  worker_name :: string
  worker_handler :: "nat \<Rightarrow> jsval \<Rightarrow> run_result"
  options :: WorkerOptions

text \<open>
  A \<open>WorkerInstance\<close> object. \<open>lastError\<close> holds the message of the stored \<open>Error\<close>; the
  \<open>stop\<close> method is the function \<open>instance_stop\<close> below.
\<close>

record WorkerInstance =
  inst_id :: string
  inst_name :: string
  status :: status
  startedAt :: "nat option"
  restartCount :: nat
  lastError :: "string option"

text \<open>
  A value of the map \<open>runningWorkers\<close>: references to the abort controller and to the
  instance object (its third field, the promise of \<open>runWorker\<close>, is never read).
\<close>

record entry =
  abortController :: nat
  instance_ref :: nat

text \<open>
  The \<open>async\<close> function \<open>runWorker\<close> as a coroutine: where it is suspended, the local
  variable \<open>restartCount\<close>, the exception it ended with if it did not return normally,
  the outcome of the handler promise it awaits, the time its restart timer fires, and
  counts of the attempts made and of the handler's invocations.
\<close>

datatype pc = AtLoopHead | AwaitHandler | AwaitDelay | Finished

record task =
  t_worker :: HeliumWorkerDef
  t_createContext :: "nat \<Rightarrow> thrown + jsval"
  t_restartCount :: nat
  t_pc :: pc
  t_rejected :: "thrown option"
  t_outcome :: run_result
  t_wake :: nat
  t_attempts :: nat
  t_runs :: nat

text \<open>
  The supervisor's state: the map \<open>runningWorkers\<close> in insertion order, the instance
  objects and abort signals it refers to, the \<open>runWorker\<close> coroutines, and the clock that
  \<open>new Date()\<close> reads (milliseconds). A worker started gets one fresh number for its
  instance, its abort controller and its coroutine.
\<close>

record supervisor =
  runningWorkers :: "(string \<times> entry) list"
  instances :: "nat \<Rightarrow> WorkerInstance"
  aborted :: "nat \<Rightarrow> bool"
  tasks :: "nat \<Rightarrow> task"
  next_ref :: nat
  clock :: nat

definition set_instance :: "nat \<Rightarrow> (WorkerInstance \<Rightarrow> WorkerInstance) \<Rightarrow> supervisor \<Rightarrow> supervisor" where
  "set_instance r f st = st\<lparr>instances := (instances st)(r := f (instances st r))\<rparr>"

definition set_task :: "nat \<Rightarrow> (task \<Rightarrow> task) \<Rightarrow> supervisor \<Rightarrow> supervisor" where
  "set_task r f st = st\<lparr>tasks := (tasks st)(r := f (tasks st r))\<rparr>"

definition runningWorkers_delete :: "string \<Rightarrow> supervisor \<Rightarrow> supervisor" where
  "runningWorkers_delete n st = st\<lparr>runningWorkers := AList.delete n (runningWorkers st)\<rparr>"

text \<open>
  \<open>error instanceof Error ? error : new Error(String(error))\<close>, as its message; \<open>None\<close>
  where \<open>String(error)\<close> throws.
\<close>

definition error_message :: "thrown \<Rightarrow> string option" where
  "error_message e = (case e of ThrownError m \<Rightarrow> Some m | ThrownValue v \<Rightarrow> js_string_of v)"

text \<open>
  The \<open>catch\<close> block of \<open>runWorker\<close>, for coroutine \<open>r\<close> and the caught value \<open>e\<close>. When
  the conversion of \<open>e\<close> throws, the exception leaves the block at once and ends
  \<open>runWorker\<close>: status, \<open>restartCount\<close> and the map are as they were.
\<close>

definition on_catch :: "nat \<Rightarrow> thrown \<Rightarrow> supervisor \<Rightarrow> supervisor" where
  "on_catch r e st =
     (let t = tasks st r; opts = options (t_worker t); n = worker_name (t_worker t)
      in if aborted st r then set_task r (\<lambda>t. t\<lparr>t_pc := Finished\<rparr>) st
         else
           (case error_message e of
              None \<Rightarrow> set_task r (\<lambda>t. t\<lparr>t_pc := Finished, t_rejected := Some cannot_convert\<rparr>) st
            | Some m \<Rightarrow>
               (let rc = Suc (t_restartCount t);
                    st1 = set_instance r (\<lambda>i. i\<lparr>lastError := Some m, status := Crashed, restartCount := rc\<rparr>)
                            (set_task r (\<lambda>t. t\<lparr>t_restartCount := rc\<rparr>) st)
                in if autoRestart opts then
                     (if maxRestarts opts > 0 \<and> int rc \<ge> maxRestarts opts
                      then set_task r (\<lambda>t. t\<lparr>t_pc := Finished\<rparr>) (runningWorkers_delete n st1)
                      else set_task r (\<lambda>t. t\<lparr>t_pc := AwaitDelay, t_wake := clock st1 + restartDelayMs opts\<rparr>)
                             (set_instance r (\<lambda>i. i\<lparr>status := Restarting\<rparr>) st1))
                   else set_task r (\<lambda>t. t\<lparr>t_pc := Finished\<rparr>) (runningWorkers_delete n st1))))"

text \<open>
  One pass of the \<open>while\<close> loop from its head, up to the next suspension: the test of the
  abort signal, the \<open>try\<close> block up to \<open>await handler(ctx)\<close>, and the \<open>catch\<close> block when
  \<open>createContext\<close> or the handler throws before returning.
\<close>

definition loop_head :: "nat \<Rightarrow> supervisor \<Rightarrow> supervisor" where
  "loop_head r st =
     (if aborted st r then set_task r (\<lambda>t. t\<lparr>t_pc := Finished\<rparr>) st
      else
        (let st1 = set_instance r (\<lambda>i. i\<lparr>status := Running, startedAt := Some (clock st)\<rparr>) st;
             t = tasks st1 r
         in case t_createContext t (t_attempts t) of
              Inl e \<Rightarrow> on_catch r e (set_task r (\<lambda>t. t\<lparr>t_attempts := Suc (t_attempts t)\<rparr>) st1)
            | Inr c \<Rightarrow>
               (case worker_handler (t_worker t) (t_runs t) c of
                  ThrowsSync e \<Rightarrow>
                    on_catch r e
                      (set_task r (\<lambda>t. t\<lparr>t_attempts := Suc (t_attempts t), t_runs := Suc (t_runs t)\<rparr>) st1)
                | out \<Rightarrow>
                    set_task r (\<lambda>t. t\<lparr>t_attempts := Suc (t_attempts t), t_runs := Suc (t_runs t),
                                       t_pc := AwaitHandler, t_outcome := out\<rparr>) st1)))"

text \<open>
  The coroutine \<open>r\<close> is resumed: the handler's promise has settled, or the restart timer
  has fired. It runs to its next suspension or to its end.
\<close>

definition resume :: "nat \<Rightarrow> supervisor \<Rightarrow> supervisor" where
  "resume r st =
     (let t = tasks st r
      in case t_pc t of
           Finished \<Rightarrow> st
         | AtLoopHead \<Rightarrow> loop_head r st
         | AwaitDelay \<Rightarrow> loop_head r (st\<lparr>clock := max (clock st) (t_wake t)\<rparr>)
         | AwaitHandler \<Rightarrow>
            (case t_outcome t of
               NeverSettles \<Rightarrow> st
             | ThrowsSync e \<Rightarrow> st
             | Rejects e \<Rightarrow> on_catch r e st
             | Completes \<Rightarrow>
                 set_task r (\<lambda>t. t\<lparr>t_pc := Finished\<rparr>)
                   (if \<not> aborted st r
                    then runningWorkers_delete (worker_name (t_worker t))
                           (set_instance r (\<lambda>i. i\<lparr>status := Stopped\<rparr>) st)
                    else st)))"

text \<open>
  \<open>startWorker(worker, createContext)\<close>: the call \<open>runWorker()\<close> runs the coroutine up to
  its first suspension before \<open>runningWorkers.set\<close> registers the worker. It returns the
  instance object.
\<close>

definition startWorker :: "HeliumWorkerDef \<Rightarrow> (nat \<Rightarrow> thrown + jsval) \<Rightarrow> supervisor \<Rightarrow> nat \<times> supervisor" where
  "startWorker worker createContext st =
     (case map_of (runningWorkers st) (worker_name worker) of
        Some existing \<Rightarrow> (instance_ref existing, st)
      | None \<Rightarrow>
         (let r = next_ref st;
              st1 = st\<lparr>next_ref := Suc r,
                       aborted := (aborted st)(r := False),
                       instances := (instances st)(r :=
                          \<lparr>inst_id = worker_name worker, inst_name = worker_name worker, status = Running,
                           startedAt = Some (clock st), restartCount = 0, lastError = None\<rparr>),
                       tasks := (tasks st)(r :=
                          \<lparr>t_worker = worker, t_createContext = createContext, t_restartCount = 0,
                           t_pc = AtLoopHead, t_rejected = None, t_outcome = NeverSettles, t_wake = 0, t_attempts = 0, t_runs = 0\<rparr>)\<rparr>;
              st2 = resume r st1
          in (r, st2\<lparr>runningWorkers :=
                       AList.update (worker_name worker) \<lparr>abortController = r, instance_ref = r\<rparr> (runningWorkers st2)\<rparr>)))"

text \<open>The \<open>stop\<close> method of the instance object \<open>r\<close>.\<close>

definition instance_stop :: "nat \<Rightarrow> supervisor \<Rightarrow> supervisor" where
  "instance_stop r st =
     runningWorkers_delete (worker_name (t_worker (tasks st r)))
       (set_instance r (\<lambda>i. i\<lparr>status := Stopped\<rparr>) (st\<lparr>aborted := (aborted st)(r := True)\<rparr>))"

definition stopWorker :: "string \<Rightarrow> supervisor \<Rightarrow> bool \<times> supervisor" where
  "stopWorker n st =
     (case map_of (runningWorkers st) n of
        Some w \<Rightarrow>
          (True, runningWorkers_delete n
                   (set_instance (instance_ref w) (\<lambda>i. i\<lparr>status := Stopped\<rparr>)
                      (st\<lparr>aborted := (aborted st)(abortController w := True)\<rparr>)))
      | None \<Rightarrow> (False, st))"

definition stopAllWorkers :: "supervisor \<Rightarrow> supervisor" where
  "stopAllWorkers st =
     (fold (\<lambda>w s. set_instance (instance_ref w) (\<lambda>i. i\<lparr>status := Stopped\<rparr>)
                    (s\<lparr>aborted := (aborted s)(abortController w := True)\<rparr>))
           (map snd (runningWorkers st)) st)\<lparr>runningWorkers := []\<rparr>"

text \<open>
  The status queries. Both hand out the instance objects the map holds; \<open>getWorkerStatus\<close>
  puts them into a new array.
\<close>

definition getWorkerStatus :: "supervisor \<Rightarrow> nat list" where
  "getWorkerStatus st = map (\<lambda>w. instance_ref (snd w)) (runningWorkers st)"

definition getWorkerById :: "string \<Rightarrow> supervisor \<Rightarrow> nat option" where
  "getWorkerById n st = (case map_of (runningWorkers st) n of None \<Rightarrow> None | Some w \<Rightarrow> Some (instance_ref w))"

text \<open>A caller assigns to properties of the instance object \<open>r\<close> it was handed.\<close>

definition caller_writes :: "nat \<Rightarrow> (WorkerInstance \<Rightarrow> WorkerInstance) \<Rightarrow> supervisor \<Rightarrow> supervisor" where
  "caller_writes r f st = st\<lparr>instances := (instances st)(r := f (instances st r))\<rparr>"

text \<open>
  The event loop resumes coroutine \<open>r\<close> until \<open>runWorker\<close> has ended; \<open>None\<close> when it
  has not ended after \<open>fuel\<close> resumptions.
\<close>

fun run_to_end :: "nat \<Rightarrow> nat \<Rightarrow> supervisor \<Rightarrow> supervisor option" where
  "run_to_end 0 r st = (if t_pc (tasks st r) = Finished then Some st else None)"
| "run_to_end (Suc fuel) r st =
     (if t_pc (tasks st r) = Finished then Some st else run_to_end fuel r (resume r st))"

definition initial_supervisor :: supervisor where
  "initial_supervisor =
     \<lparr>runningWorkers = [],
      instances = (\<lambda>_. \<lparr>inst_id = [], inst_name = [], status = Stopped, startedAt = None,
                        restartCount = 0, lastError = None\<rparr>),
      aborted = (\<lambda>_. False),
      tasks = (\<lambda>_. \<lparr>t_worker = \<lparr>worker_id = [], worker_name = [], worker_handler = (\<lambda>_ _. Completes),
                                  options = \<lparr>opt_name = [], autoRestart = False, restartDelayMs = 0,
                                             maxRestarts = 0, autoStart = False\<rparr>\<rparr>,
                     t_createContext = (\<lambda>_. Inr JUndefined), t_restartCount = 0, t_pc = Finished,
                     t_rejected = None, t_outcome = NeverSettles, t_wake = 0, t_attempts = 0, t_runs = 0\<rparr>),
      next_ref = 0, clock = 0\<rparr>"


section \<open>Vocabulary of the properties\<close>

text \<open>
  A middleware program invokes its continuation iff it reaches \<open>MwNext\<close>; short of that
  it ends by returning or by throwing.
\<close>

fun calls_next :: "mw_prog \<Rightarrow> bool" where
  "calls_next MwReturn = False"
| "calls_next (MwThrow t) = False"
| "calls_next (MwSetCtx c p) = calls_next p"
| "calls_next (MwNext k) = True"

fun mw_throws :: "mw_prog \<Rightarrow> bool" where
  "mw_throws MwReturn = False"
| "mw_throws (MwThrow t) = True"
| "mw_throws (MwSetCtx c p) = mw_throws p"
| "mw_throws (MwNext k) = False"

text \<open>The property names of a frame, and the \<open>error\<close> properties of the frames sent.\<close>

definition field_names :: "jsval \<Rightarrow> string list" where
  "field_names v = (case v of JObj fs \<Rightarrow> map fst fs | _ \<Rightarrow> [])"

definition error_fields :: "dispatch \<Rightarrow> jsval list" where
  "error_fields d = map (\<lambda>f. read_prop f ''error'') (sent d)"

text \<open>
  A thrown value the supervisor can record: an \<open>Error\<close>, or a value that \<open>String\<close>
  converts. A handler invocation that fails at once, by throwing or by a rejected
  promise, with such a value. A context factory that, when it throws, throws such a
  value.
\<close>

definition convertible :: "thrown \<Rightarrow> bool" where
  "convertible e = (error_message e \<noteq> None)"

fun fails_at_once :: "run_result \<Rightarrow> bool" where
  "fails_at_once (ThrowsSync e) = convertible e"
| "fails_at_once (Rejects e) = convertible e"
| "fails_at_once Completes = False"
| "fails_at_once NeverSettles = False"

definition always_throws :: "(nat \<Rightarrow> jsval \<Rightarrow> run_result) \<Rightarrow> bool" where
  "always_throws h = (\<forall>k c. fails_at_once (h k c))"

definition throws_convertible :: "(nat \<Rightarrow> thrown + jsval) \<Rightarrow> bool" where
  "throws_convertible createContext = (\<forall>k e. createContext k = Inl e \<longrightarrow> convertible e)"

text \<open>
  What the supervisor holds for a worker name: the instance object its map refers to.
  And a summary of a finished run: the handler's invocations, the final status, the
  names still listed.
\<close>

definition instance_state :: "string \<Rightarrow> supervisor \<Rightarrow> WorkerInstance option" where
  "instance_state n st =
     (case map_of (runningWorkers st) n of None \<Rightarrow> None | Some w \<Rightarrow> Some (instances st (instance_ref w)))"

definition run_summary :: "nat \<Rightarrow> supervisor \<Rightarrow> nat \<times> status \<times> string list" where
  "run_summary r st = (t_runs (tasks st r), status (instances st r), map fst (runningWorkers st))"


section \<open>Example inputs\<close>

text \<open>
  The scenario of the documentation: a registry holding \<open>getTasks\<close>, three request
  frames and three response frames. \<open>example_JSON_parse\<close> is \<open>JSON.parse\<close> on the texts
  used here; every other text stands for a malformed one.
\<close>

definition example_tasks :: jsval where
  "example_tasks = JArr [JObj [(''id'', JNum ''1''), (''name'', JStr ''Task 1''), (''status'', JStr ''open'')]]"

definition example_registry :: RpcRegistry where
  "example_registry =
     register ''getTasks'' \<lparr>def_id = [], handler = (\<lambda>args c. Inr example_tasks)\<rparr> new_RpcRegistry"

definition getTasks_frame :: string where
  \<open>getTasks_frame = ''{"id":"1","method":"getTasks","args":{"status":"open"}}''\<close>

definition getTasks_request :: jsval where
  "getTasks_request =
     JObj [(''id'', JStr ''1''), (''method'', JStr ''getTasks''), (''args'', JObj [(''status'', JStr ''open'')])]"

definition doesNotExist_frame :: string where
  \<open>doesNotExist_frame = ''{"id":"2","method":"doesNotExist"}''\<close>

definition doesNotExist_request :: jsval where
  "doesNotExist_request = JObj [(''id'', JStr ''2''), (''method'', JStr ''doesNotExist'')]"

definition odd_method_frame :: string where
  \<open>odd_method_frame = ''{"id":"3","method":{"toString":1}}''\<close>

definition odd_method_request :: jsval where
  "odd_method_request = JObj [(''id'', JStr ''3''), (''method'', JObj [(''toString'', JNum ''1'')])]"

definition example_stats :: jsval where
  "example_stats = JObj [(''remainingRequests'', JNum ''9''), (''resetInSeconds'', JNum ''60'')]"

definition response_a_frame :: string where
  \<open>response_a_frame = ''{"id":"a","ok":false,"stats":{"remainingRequests":9,"resetInSeconds":60},"error":"boom"}''\<close>

definition response_a :: jsval where
  "response_a = JObj [(''id'', JStr ''a''), (''ok'', JBool False), (''stats'', example_stats), (''error'', JStr ''boom'')]"

definition response_b_frame :: string where
  \<open>response_b_frame = ''{"id":"b","ok":true,"stats":{"remainingRequests":9,"resetInSeconds":60},"result":42}''\<close>

definition response_b :: jsval where
  "response_b = JObj [(''id'', JStr ''b''), (''ok'', JBool True), (''stats'', example_stats), (''result'', JNum ''42'')]"

definition response_stale_frame :: string where
  \<open>response_stale_frame = ''{"id":"zz","ok":true,"stats":{"remainingRequests":9,"resetInSeconds":60},"result":42}''\<close>

definition response_stale :: jsval where
  "response_stale = JObj [(''id'', JStr ''zz''), (''ok'', JBool True), (''stats'', example_stats), (''result'', JNum ''42'')]"

definition example_JSON_parse :: "string \<Rightarrow> jsval option" where
  "example_JSON_parse s =
     (if s = ''null'' then Some JNull
      else if s = getTasks_frame then Some getTasks_request
      else if s = doesNotExist_frame then Some doesNotExist_request
      else if s = odd_method_frame then Some odd_method_request
      else if s = response_a_frame then Some response_a
      else if s = response_b_frame then Some response_b
      else if s = response_stale_frame then Some response_stale
      else None)"

text \<open>Two interceptors that never call \<open>next\<close>: one returns, one throws.\<close>

definition blocking_registry :: RpcRegistry where
  "blocking_registry = setMiddleware (\<lambda>c. MwReturn) example_registry"

definition throwing_registry :: RpcRegistry where
  "throwing_registry = setMiddleware (\<lambda>c. MwThrow (ThrownError ''denied'')) example_registry"

text \<open>
  Decoders on the frames used here: the text \<open><html>\<close> is not JSON; the bytes of the
  text \<open>null\<close> are not one msgpack value, the byte \<open>0xc0\<close> is msgpack's nil; a
  \<open>Uint8Array\<close> built from a non-numeric string is empty and does not decode.
\<close>

definition example_decoders :: decoders where
  "example_decoders =
     \<lparr>JSON_parse = example_JSON_parse,
      msgpackDecode = (\<lambda>bytes. if bytes = [192] then Some JNull else None),
      msgpackDecode_text = (\<lambda>s. None)\<rparr>"

text \<open>
  A client with two calls in flight, \<open>a\<close> and \<open>b\<close>; and a client on which the id \<open>r1\<close>
  is already in flight, for call promise 7.
\<close>

definition two_pending :: client where
  "two_pending = initial_client\<lparr>pending := [''a'' \<mapsto> 0, ''b'' \<mapsto> 1], next_call_promise := 2\<rparr>"

definition r1_in_flight :: client where
  "r1_in_flight = initial_client\<lparr>pending := [''r1'' \<mapsto> 7], next_call_promise := 8\<rparr>"

text \<open>
  A transport whose socket refuses to send, with \<open>JSON.stringify\<close> on the one request
  used here.
\<close>

definition ping_request :: jsval where
  "ping_request = JObj [(''id'', JStr ''r1''), (''method'', JStr ''ping''), (''args'', JNull)]"

definition ping_text :: string where
  \<open>ping_text = ''{"id":"r1","method":"ping","args":null}''\<close>

definition refusing_transport :: transport where
  "refusing_transport =
     \<lparr>msgpackEncode = (\<lambda>v. Inl (ThrownError ''not used'')),
      JSON_stringify = (\<lambda>v. if v = ping_request then Inr ping_text else Inl (ThrownError ''not used'')),
      ws_send = (\<lambda>ws d. Some (ThrownError ''InvalidStateError''))\<rparr>"

text \<open>The client after its first call of \<open>ensureSocketReady\<close>: socket 0 is connecting.\<close>

definition connecting_client :: client where
  "connecting_client = snd (ensureSocketReady initial_client)"

text \<open>
  The worker of the restart-bound scenario (\<open>maxRestarts = 2\<close>, \<open>restartDelayMs = 10\<close>,
  \<open>autoRestart = true\<close>, a handler that always rejects with an \<open>Error\<close>); the same worker
  with a handler that always rejects with the object \<open>{toString: 1}\<close>; and a worker that
  runs on.
\<close>

definition example_createContext :: "nat \<Rightarrow> thrown + jsval" where
  "example_createContext k = Inr (JObj [])"

definition crashing_worker :: HeliumWorkerDef where
  "crashing_worker =
     \<lparr>worker_id = ''crashingWorker'', worker_name = ''crashingWorker'',
      worker_handler = (\<lambda>k c. Rejects (ThrownError ''Something went wrong!'')),
      options = \<lparr>opt_name = ''crashingWorker'', autoRestart = True, restartDelayMs = 10,
                 maxRestarts = 2, autoStart = True\<rparr>\<rparr>"

definition odd_worker :: HeliumWorkerDef where
  "odd_worker =
     \<lparr>worker_id = ''oddWorker'', worker_name = ''oddWorker'',
      worker_handler = (\<lambda>k c. Rejects (ThrownValue (JObj [(''toString'', JNum ''1'')]))),
      options = \<lparr>opt_name = ''oddWorker'', autoRestart = True, restartDelayMs = 10,
                 maxRestarts = 2, autoStart = True\<rparr>\<rparr>"

definition queueConsumer :: HeliumWorkerDef where
  "queueConsumer =
     \<lparr>worker_id = ''queueConsumer'', worker_name = ''queueConsumer'',
      worker_handler = (\<lambda>k c. NeverSettles),
      options = \<lparr>opt_name = ''queueConsumer'', autoRestart = True, restartDelayMs = 5000,
                 maxRestarts = 0, autoStart = True\<rparr>\<rparr>"

definition consumer_running :: supervisor where
  "consumer_running = snd (startWorker queueConsumer example_createContext initial_supervisor)"

definition tamper :: "WorkerInstance \<Rightarrow> WorkerInstance" where
  "tamper i = i\<lparr>status := Stopped, restartCount := 99\<rparr>"



section \<open>Properties of the dispatcher\<close>

lemmas example_defs =
  example_JSON_parse_def example_registry_def getTasks_frame_def doesNotExist_frame_def
  getTasks_request_def doesNotExist_request_def odd_method_frame_def odd_method_request_def
  response_a_frame_def response_b_frame_def response_stale_frame_def
  blocking_registry_def throwing_registry_def
  register_def new_RpcRegistry_def setMiddleware_def example_tasks_def

lemma run_mw_no_next:
  "\<not> calls_next p \<Longrightarrow>
     handler_calls (snd (run_mw p h e)) = handler_calls e \<and> nextCalled (snd (run_mw p h e)) = nextCalled e"
  by (induction p arbitrary: e) auto

lemma run_mw_outcome:
  "\<not> calls_next p \<Longrightarrow> (fst (run_mw p h e) = None) = (\<not> mw_throws p)"
  by (induction p arbitrary: e) auto

lemma handleMessage_undecodable:
  "parse raw = None \<Longrightarrow> handleMessage parse reg raw = \<lparr>sent = [], invoked = 0, escaped = None\<rparr>"
  by (simp add: handleMessage_def)

lemma handleMessage_one_response:
  assumes "parse raw = Some req" and "get_prop req ''method'' = Inr m"
    and "methods_get reg m \<noteq> None \<or> js_string_of m \<noteq> None"
  shows "length (sent (handleMessage parse reg raw)) = 1 \<and> escaped (handleMessage parse reg raw) = None"
  using assms
  by (auto simp: handleMessage_def split: option.splits sum.splits prod.splits)

lemma unknown_method_unprintable:
  assumes "parse raw = Some req" and "get_prop req ''method'' = Inr m"
    and "methods_get reg m = None" and "js_string_of m = None"
  shows "handleMessage parse reg raw = \<lparr>sent = [], invoked = 0, escaped = Some cannot_convert\<rparr>"
  using assms by (simp add: handleMessage_def)

lemma field_names_wire: "set (field_names (wire v)) \<subseteq> set (field_names v)"
  by (cases v) (auto simp: field_names_def)

lemma handler_not_invoked_without_next:
  assumes "parse raw = Some req" and "get_prop req ''method'' = Inr m"
    and "middleware reg = Some mw"
    and "\<not> calls_next (mw \<lparr>ctx = JObj [], ctx_type = ''method'', methodName = m\<rparr>)"
  shows "invoked (handleMessage parse reg raw) = 0"
proof (cases "methods_get reg m")
  case None
  then show ?thesis using assms by (simp add: handleMessage_def split: option.splits)
next
  case (Some d)
  let ?r = "run_mw (mw \<lparr>ctx = JObj [], ctx_type = ''method'', methodName = m\<rparr>) (handler d (read_prop req ''args''))
              \<lparr>nextCalled = False, result = JUndefined, cur_ctx = JObj [], handler_calls = 0\<rparr>"
  have "handler_calls (snd ?r) = 0"
    using run_mw_no_next [OF assms(4)] by simp
  then show ?thesis
    using assms(1-3) Some
    by (cases ?r) (auto simp: handleMessage_def split: option.splits)
qed

text \<open>
  Claim C2. A frame that \<open>JSON.parse\<close> accepts gets exactly one response, and nothing
  escapes the dispatcher. The frame \<open>null\<close> is accepted by \<open>JSON.parse\<close>; reading
  \<open>req.method\<close> then throws outside both \<open>try\<close> blocks, so the call rejects and no
  response is sent.
\<close>

theorem handleMessage_null_frame:
  "handleMessage example_JSON_parse example_registry ''null'' =
     \<lparr>sent = [], invoked = 0,
      escaped = Some (ThrownError ''Cannot read properties of null (reading method)'')\<rparr>"
  by (simp add: handleMessage_def example_JSON_parse_def)

text \<open>
  Claim C5, as the code has it. For a request that parses and names a registered method,
  under an interceptor that returns without invoking its continuation, the dispatcher
  sends exactly one frame, \<open>{id, ok: false, error: {message: "Request blocked by
  middleware"}}\<close>, the handler is not invoked, and nothing escapes.
\<close>

theorem blocked_request_response:
  assumes "parse raw = Some req" and "get_prop req ''method'' = Inr m"
    and "methods_get reg m = Some d" and "middleware reg = Some mw"
    and "\<not> calls_next (mw \<lparr>ctx = JObj [], ctx_type = ''method'', methodName = m\<rparr>)"
    and "\<not> mw_throws (mw \<lparr>ctx = JObj [], ctx_type = ''method'', methodName = m\<rparr>)"
  shows "handleMessage parse reg raw =
     \<lparr>sent = [JObj [(''id'', read_prop req ''id''), (''ok'', JBool False),
                    (''error'', JObj [(''message'', JStr ''Request blocked by middleware'')])]],
      invoked = 0, escaped = None\<rparr>"
proof -
  let ?r = "run_mw (mw \<lparr>ctx = JObj [], ctx_type = ''method'', methodName = m\<rparr>) (handler d (read_prop req ''args''))
              \<lparr>nextCalled = False, result = JUndefined, cur_ctx = JObj [], handler_calls = 0\<rparr>"
  have "handler_calls (snd ?r) = 0" and "\<not> nextCalled (snd ?r)"
    using run_mw_no_next [OF assms(5)] by simp_all
  moreover have "fst ?r = None"
    using run_mw_outcome [OF assms(5)] assms(6) by simp
  ultimately show ?thesis
    using assms(1-4)
    by (cases ?r) (simp add: handleMessage_def failure_response_def)
qed

text \<open>The blocking interceptor on the \<open>getTasks\<close> request.\<close>

theorem blocked_request_response_witness:
  "handleMessage example_JSON_parse blocking_registry getTasks_frame =
     \<lparr>sent = [JObj [(''id'', JStr ''1''), (''ok'', JBool False),
                    (''error'', JObj [(''message'', JStr ''Request blocked by middleware'')])]],
      invoked = 0, escaped = None\<rparr>"
  using blocked_request_response [of example_JSON_parse getTasks_frame getTasks_request
      "JStr ''getTasks''" blocking_registry
      "\<lparr>def_id = ''getTasks'', handler = (\<lambda>args c. Inr example_tasks)\<rparr>" "\<lambda>c. MwReturn"]
  by (simp add: example_defs methods_get_def read_prop_def)

text \<open>
  Claim C5 as stated fails three ways: the \<open>error\<close> sent is an object, not the bare
  string; a request for an unknown method is answered as unknown, not as blocked; and an
  interceptor that throws instead of returning has its own message sent.
\<close>

theorem blocked_request_counterexample:
  "error_fields (handleMessage example_JSON_parse blocking_registry getTasks_frame)
     \<noteq> [JStr ''Request blocked by middleware'']
   \<and> error_fields (handleMessage example_JSON_parse blocking_registry doesNotExist_frame)
     = [JObj [(''message'', JStr ''Unknown method doesNotExist'')]]
   \<and> error_fields (handleMessage example_JSON_parse throwing_registry getTasks_frame)
     = [JObj [(''message'', JStr ''denied'')]]"
  by (simp add: error_fields_def handleMessage_def example_defs methods_get_def
        failure_response_def read_prop_def err_message_def)

text \<open>
  Claim C6, as the code has it. For a request that parses to a value other than \<open>null\<close>,
  whose \<open>method\<close> is not a key of the registry and converts to the string \<open>name\<close> (a
  string converts to itself), the dispatcher sends exactly one frame, the object \<open>{id,
  ok: false, error: {message: "Unknown method <name>"}}\<close> with the request's \<open>id\<close>: the
  \<open>error\<close> is an object holding the message. On the wire the frame has the request's
  \<open>id\<close> when the request has one.
\<close>

theorem unknown_method_response:
  assumes "parse raw = Some req" and "get_prop req ''method'' = Inr m"
    and "methods_get reg m = None" and "js_string_of m = Some name"
  shows "handleMessage parse reg raw =
     \<lparr>sent = [JObj [(''id'', read_prop req ''id''), (''ok'', JBool False),
                    (''error'', JObj [(''message'', JStr (''Unknown method '' @ name))])]],
      invoked = 0, escaped = None\<rparr>
   \<and> emitted (handleMessage parse reg raw) =
       [JObj ((if read_prop req ''id'' = JUndefined then [] else [(''id'', wire (read_prop req ''id''))])
              @ [(''ok'', JBool False),
                 (''error'', JObj [(''message'', JStr (''Unknown method '' @ name))])])]"
  using assms by (simp add: handleMessage_def failure_response_def emitted_def)

text \<open>The request for \<open>doesNotExist\<close>.\<close>

theorem unknown_method_response_witness:
  "handleMessage example_JSON_parse example_registry doesNotExist_frame =
     \<lparr>sent = [JObj [(''id'', JStr ''2''), (''ok'', JBool False),
                    (''error'', JObj [(''message'', JStr ''Unknown method doesNotExist'')])]],
      invoked = 0, escaped = None\<rparr>
   \<and> emitted (handleMessage example_JSON_parse example_registry doesNotExist_frame) =
       [JObj [(''id'', JStr ''2''), (''ok'', JBool False),
              (''error'', JObj [(''message'', JStr ''Unknown method doesNotExist'')])]]"
proof -
  have "example_JSON_parse doesNotExist_frame = Some doesNotExist_request"
    and "get_prop doesNotExist_request ''method'' = Inr (JStr ''doesNotExist'')"
    and "methods_get example_registry (JStr ''doesNotExist'') = None"
    and "js_string_of (JStr ''doesNotExist'') = Some ''doesNotExist''"
    by (simp_all add: example_defs methods_get_def)
  from unknown_method_response [of example_JSON_parse doesNotExist_frame, OF this] show ?thesis
    by (simp add: doesNotExist_request_def read_prop_def emitted_def)
qed

text \<open>
  Claim C6 as stated fails: the \<open>error\<close> of that frame is not the bare string; and a
  request whose \<open>method\<close> is the object \<open>{toString: 1}\<close> gets no frame at all, the
  conversion of the method to a string throws and leaves the dispatcher.
\<close>

theorem unknown_method_counterexample:
  "error_fields (handleMessage example_JSON_parse example_registry doesNotExist_frame)
     \<noteq> [JStr ''Unknown method doesNotExist'']
   \<and> handleMessage example_JSON_parse example_registry odd_method_frame
     = \<lparr>sent = [], invoked = 0, escaped = Some cannot_convert\<rparr>"
  by (simp add: error_fields_def handleMessage_def example_defs methods_get_def
        failure_response_def read_prop_def)

text \<open>
  Claim C7, as the code has it. No frame the dispatcher emits, success or failure,
  carries a \<open>stats\<close> property: the properties of a frame on the wire are among \<open>id\<close>,
  \<open>ok\<close>, \<open>result\<close> and \<open>error\<close>.
\<close>

theorem response_field_names:
  assumes "f \<in> set (emitted (handleMessage parse reg raw))"
  shows "''stats'' \<notin> set (field_names f)
         \<and> set (field_names f) \<subseteq> {''id'', ''ok'', ''result'', ''error''}"
proof -
  obtain g where g: "g \<in> set (sent (handleMessage parse reg raw))" and f: "f = wire g"
    using assms by (auto simp: emitted_def)
  have "set (field_names g) \<subseteq> {''id'', ''ok'', ''result'', ''error''}"
    using g
    by (auto simp: handleMessage_def field_names_def failure_response_def success_response_def
             split: option.splits sum.splits prod.splits if_splits)
  then have "set (field_names f) \<subseteq> {''id'', ''ok'', ''result'', ''error''}"
    using field_names_wire [of g] f by blast
  then show ?thesis by auto
qed

text \<open>The failure frame emitted for \<open>doesNotExist\<close>.\<close>

theorem response_field_names_witness:
  "''stats'' \<notin> set (field_names (wire (failure_response (JStr ''2'') (JStr ''Unknown method doesNotExist''))))
   \<and> set (field_names (wire (failure_response (JStr ''2'') (JStr ''Unknown method doesNotExist''))))
       \<subseteq> {''id'', ''ok'', ''result'', ''error''}"
proof -
  have "wire (failure_response (JStr ''2'') (JStr ''Unknown method doesNotExist''))
          \<in> set (emitted (handleMessage example_JSON_parse example_registry doesNotExist_frame))"
    by (simp add: emitted_def handleMessage_def example_defs methods_get_def read_prop_def)
  from response_field_names [OF this] show ?thesis .
qed

text \<open>Claim C7 as stated fails: the success frame emitted for \<open>getTasks\<close> carries no \<open>stats\<close>.\<close>

theorem response_stats_counterexample:
  "map field_names (emitted (handleMessage example_JSON_parse example_registry getTasks_frame))
     = [[''id'', ''ok'', ''result'']]"
  by (simp add: emitted_def handleMessage_def example_defs methods_get_def success_response_def
        read_prop_def field_names_def)


section \<open>Properties of the client\<close>

lemma deliver_absent:
  "get_prop msg ''id'' = Inr i \<Longrightarrow> pending_get st i = None \<Longrightarrow> deliver msg st = Inr st"
  by (simp add: deliver_def)

lemma deliver_present:
  assumes "get_prop msg ''id'' = Inr (JStr k)" and "pending st k = Some p"
  shows "deliver msg st =
           Inr ((if truthy (read_prop msg ''ok'')
                 then resolve_call p (JObj [(''data'', read_prop msg ''result''), (''stats'', read_prop msg ''stats'')])
                 else reject_call p (ThrownValue (JObj [(''error'', read_prop msg ''error''), (''stats'', read_prop msg ''stats'')])))
                (st\<lparr>pending := (pending st)(k := None)\<rparr>))"
  using assms by (simp add: deliver_def pending_get_def pending_delete_def)

lemma ws_onmessage_decoded:
  "snd (decode_message d advertised data) = Some msg \<Longrightarrow> ws_onmessage d advertised data st = deliver msg st"
  by (simp add: ws_onmessage_def)

text \<open>
  Claim C3. A response frame is a frame that decodes to a value other than \<open>null\<close> and
  \<open>undefined\<close>, so that its \<open>id\<close> can be read. If that \<open>id\<close> is not a key of the pending
  table, \<open>ws.onmessage\<close> returns normally and the client is unchanged. If it is the key
  \<open>k\<close> of the entry of the pending call promise \<open>p\<close>, \<open>ws.onmessage\<close> returns normally,
  the table afterwards is the table before without \<open>k\<close>, and the only promise touched is
  \<open>p\<close>: it is resolved with \<open>{data, stats}\<close> when \<open>ok\<close> is true and rejected with
  \<open>{error, stats}\<close> when it is false. Nothing else of the client changes.
\<close>

theorem response_correlation:
  assumes "snd (decode_message d advertised data) = Some msg"
  shows
  "(get_prop msg ''id'' = Inr i \<and> pending_get st i = None \<longrightarrow>
        ws_onmessage d advertised data st = Inr st)
   \<and> (get_prop msg ''id'' = Inr (JStr k) \<and> pending st k = Some p \<and> call_promises st p = Pending \<longrightarrow>
        (\<exists>st'. ws_onmessage d advertised data st = Inr st'
           \<and> pending st' = (pending st)(k := None)
           \<and> call_promises st' =
               (call_promises st)(p :=
                  (if truthy (read_prop msg ''ok'')
                   then Fulfilled (JObj [(''data'', read_prop msg ''result''),
                                         (''stats'', read_prop msg ''stats'')])
                   else Rejected (ThrownValue (JObj [(''error'', read_prop msg ''error''),
                                                     (''stats'', read_prop msg ''stats'')]))))
           \<and> socket st' = socket st \<and> connectionPromise st' = connectionPromise st
           \<and> outbox st' = outbox st \<and> uncaught st' = uncaught st))"
proof (intro conjI impI)
  assume "get_prop msg ''id'' = Inr i \<and> pending_get st i = None"
  then show "ws_onmessage d advertised data st = Inr st"
    by (simp add: ws_onmessage_decoded [OF assms] deliver_absent)
next
  assume a: "get_prop msg ''id'' = Inr (JStr k) \<and> pending st k = Some p \<and> call_promises st p = Pending"
  then have "ws_onmessage d advertised data st =
           Inr ((if truthy (read_prop msg ''ok'')
                 then resolve_call p (JObj [(''data'', read_prop msg ''result''), (''stats'', read_prop msg ''stats'')])
                 else reject_call p (ThrownValue (JObj [(''error'', read_prop msg ''error''), (''stats'', read_prop msg ''stats'')])))
                (st\<lparr>pending := (pending st)(k := None)\<rparr>))"
    by (simp add: ws_onmessage_decoded [OF assms] deliver_present)
  with a show "\<exists>st'. ws_onmessage d advertised data st = Inr st'
           \<and> pending st' = (pending st)(k := None)
           \<and> call_promises st' =
               (call_promises st)(p :=
                  (if truthy (read_prop msg ''ok'')
                   then Fulfilled (JObj [(''data'', read_prop msg ''result''),
                                         (''stats'', read_prop msg ''stats'')])
                   else Rejected (ThrownValue (JObj [(''error'', read_prop msg ''error''),
                                                     (''stats'', read_prop msg ''stats'')]))))
           \<and> socket st' = socket st \<and> connectionPromise st' = connectionPromise st
           \<and> outbox st' = outbox st \<and> uncaught st' = uncaught st"
    by (simp add: resolve_call_def reject_call_def settle_def)
qed

text \<open>
  With calls \<open>a\<close> and \<open>b\<close> in flight and JSON advertised, three text frames: one for an
  id that is not pending changes nothing; the success frame for \<open>b\<close> removes \<open>b\<close> only
  and resolves promise 1; the failure frame for \<open>a\<close> removes \<open>a\<close> only and rejects
  promise 0.
\<close>

theorem response_correlation_witness:
  "ws_onmessage example_decoders (Some Json) (TextData response_stale_frame) two_pending = Inr two_pending
   \<and> (\<exists>st'. ws_onmessage example_decoders (Some Json) (TextData response_b_frame) two_pending = Inr st'
          \<and> pending st' = [''a'' \<mapsto> 0]
          \<and> call_promises st' 1 = Fulfilled (JObj [(''data'', JNum ''42''), (''stats'', example_stats)])
          \<and> call_promises st' 0 = Pending)
   \<and> (\<exists>st'. ws_onmessage example_decoders (Some Json) (TextData response_a_frame) two_pending = Inr st'
          \<and> pending st' = [''b'' \<mapsto> 1]
          \<and> call_promises st' 0 = Rejected (ThrownValue (JObj [(''error'', JStr ''boom''), (''stats'', example_stats)]))
          \<and> call_promises st' 1 = Pending)"
proof -
  have ds: "snd (decode_message example_decoders (Some Json) (TextData response_stale_frame)) = Some response_stale"
    and db: "snd (decode_message example_decoders (Some Json) (TextData response_b_frame)) = Some response_b"
    and da: "snd (decode_message example_decoders (Some Json) (TextData response_a_frame)) = Some response_a"
    by (simp_all add: decode_message_def clientEncoding_def example_decoders_def example_defs)
  have "get_prop response_stale ''id'' = Inr (JStr ''zz'') \<and> pending_get two_pending (JStr ''zz'') = None"
    by (simp add: pending_get_def response_stale_def two_pending_def initial_client_def)
  with response_correlation [OF ds, of "JStr ''zz''" two_pending]
  have 1: "ws_onmessage example_decoders (Some Json) (TextData response_stale_frame) two_pending = Inr two_pending"
    by blast
  have "get_prop response_b ''id'' = Inr (JStr ''b'') \<and> pending two_pending ''b'' = Some 1
          \<and> call_promises two_pending 1 = Pending"
    by (simp add: response_b_def two_pending_def initial_client_def)
  with response_correlation [OF db, of _ two_pending "''b''" 1]
  obtain sb where b1: "ws_onmessage example_decoders (Some Json) (TextData response_b_frame) two_pending = Inr sb"
    and b2: "pending sb = (pending two_pending)(''b'' := None)"
    and b3: "call_promises sb = (call_promises two_pending)(1 :=
                  (if truthy (read_prop response_b ''ok'')
                   then Fulfilled (JObj [(''data'', read_prop response_b ''result''),
                                         (''stats'', read_prop response_b ''stats'')])
                   else Rejected (ThrownValue (JObj [(''error'', read_prop response_b ''error''),
                                                     (''stats'', read_prop response_b ''stats'')]))))"
    by blast
  have "get_prop response_a ''id'' = Inr (JStr ''a'') \<and> pending two_pending ''a'' = Some 0
          \<and> call_promises two_pending 0 = Pending"
    by (simp add: response_a_def two_pending_def initial_client_def)
  with response_correlation [OF da, of _ two_pending "''a''" 0]
  obtain sa where a1: "ws_onmessage example_decoders (Some Json) (TextData response_a_frame) two_pending = Inr sa"
    and a2: "pending sa = (pending two_pending)(''a'' := None)"
    and a3: "call_promises sa = (call_promises two_pending)(0 :=
                  (if truthy (read_prop response_a ''ok'')
                   then Fulfilled (JObj [(''data'', read_prop response_a ''result''),
                                         (''stats'', read_prop response_a ''stats'')])
                   else Rejected (ThrownValue (JObj [(''error'', read_prop response_a ''error''),
                                                     (''stats'', read_prop response_a ''stats'')]))))"
    by blast
  have "pending sb = [''a'' \<mapsto> 0]"
    using b2 by (auto simp: two_pending_def initial_client_def)
  moreover have "call_promises sb 1 = Fulfilled (JObj [(''data'', JNum ''42''), (''stats'', example_stats)])"
    using b3 by (simp add: read_prop_def response_b_def)
  moreover have "call_promises sb 0 = Pending"
    using b3 by (simp add: two_pending_def initial_client_def)
  moreover have "pending sa = [''b'' \<mapsto> 1]"
    using a2 by (auto simp: two_pending_def initial_client_def)
  moreover have "call_promises sa 0 = Rejected (ThrownValue (JObj [(''error'', JStr ''boom''), (''stats'', example_stats)]))"
    using a3 by (simp add: read_prop_def response_a_def)
  moreover have "call_promises sa 1 = Pending"
    using a3 by (simp add: two_pending_def initial_client_def)
  ultimately show ?thesis using 1 b1 a1 by blast
qed

text \<open>
  Claim C9, as the code has it. The decoder goes by the kind of frame before the
  advertised encoding: a binary frame is decoded as msgpack only; a text frame is parsed
  as JSON only when JSON is advertised; a text frame under the msgpack preference (or
  none) is parsed as JSON first and, only if that throws, decoded as msgpack.
\<close>

theorem decode_order:
  "decode_message d advertised (ArrayBuffer bytes) = ([TriedMsgpack], msgpackDecode d bytes)
   \<and> decode_message d (Some Json) (TextData s) = ([TriedJSON], JSON_parse d s)
   \<and> (advertised \<noteq> Some Json \<and> JSON_parse d s = None \<longrightarrow>
        decode_message d advertised (TextData s) = ([TriedJSON, TriedMsgpack], msgpackDecode_text d s))
   \<and> (advertised \<noteq> Some Json \<and> JSON_parse d s = Some msg \<longrightarrow>
        decode_message d advertised (TextData s) = ([TriedJSON], Some msg))"
  by (cases advertised) (auto simp: decode_message_def clientEncoding_def split: encoding.splits)

text \<open>Under the msgpack preference, a text frame that is not JSON and one that is.\<close>

theorem decode_order_witness:
  "decode_message example_decoders (Some Msgpack) (TextData ''<html>'') = ([TriedJSON, TriedMsgpack], None)
   \<and> decode_message example_decoders None (TextData ''null'') = ([TriedJSON], Some JNull)"
proof -
  have a: "Some Msgpack \<noteq> Some Json \<and> JSON_parse example_decoders ''<html>'' = None"
    by (simp add: example_decoders_def example_defs)
  have b: "None \<noteq> Some Json \<and> JSON_parse example_decoders ''null'' = Some JNull"
    by (simp add: example_decoders_def example_defs)
  show ?thesis
    using a b decode_order [of example_decoders "Some Msgpack" "[]" "''<html>''" JNull]
      decode_order [of example_decoders None "[]" "''null''" JNull]
    by (simp add: example_decoders_def)
qed

text \<open>
  Claim C9 as stated fails: with JSON advertised, a text frame that is not JSON raises
  the decode error after the JSON attempt alone; with msgpack advertised, a binary frame
  that is not msgpack raises it after the msgpack attempt alone.
\<close>

theorem decode_fallback_counterexample:
  "decode_message example_decoders (Some Json) (TextData ''<html>'') = ([TriedJSON], None)
   \<and> decode_message example_decoders (Some Msgpack) (ArrayBuffer [110, 117, 108, 108]) = ([TriedMsgpack], None)"
  by (simp add: decode_message_def clientEncoding_def example_decoders_def example_defs)

text \<open>
  Claim C10, as the code has it. When the \<open>try\<close> block of \<open>rpcCall\<close> throws \<open>err\<close>, the
  entry registered for the request id is removed and the call's promise is rejected with
  \<open>err\<close>; nothing is recorded as sent. The pending table afterwards has no entry for that
  id: it is the table before the call without that id, and so the table before the call
  when the id was not already in flight.
\<close>

theorem rpcCall_failed_send:
  assumes "try_send tr advertised ws (JObj [(''id'', JStr i), (''method'', JStr methodId), (''args'', args)]) = Inl err"
    and "rpcCall tr advertised ws i methodId args st = (p, st')"
  shows "pending st' = (pending st)(i := None) \<and> pending st' i = None
         \<and> (pending st i = None \<longrightarrow> pending st' = pending st)
         \<and> call_promises st' p = Rejected err \<and> outbox st' = outbox st"
  using assms
  by (auto simp: rpcCall_def Let_def pending_delete_def reject_call_def settle_def)

text \<open>The call \<open>ping\<close> with id \<open>r1\<close> on a socket that refuses to send.\<close>

theorem rpcCall_failed_send_witness:
  "pending (snd (rpcCall refusing_transport (Some Json) 0 ''r1'' ''ping'' JNull initial_client)) = Map.empty
   \<and> call_promises (snd (rpcCall refusing_transport (Some Json) 0 ''r1'' ''ping'' JNull initial_client)) 0
       = Rejected (ThrownError ''InvalidStateError'')"
proof -
  have s: "try_send refusing_transport (Some Json) 0
             (JObj [(''id'', JStr ''r1''), (''method'', JStr ''ping''), (''args'', JNull)])
           = Inl (ThrownError ''InvalidStateError'')"
    by (simp add: try_send_def clientEncoding_def refusing_transport_def ping_request_def)
  have f: "fst (rpcCall refusing_transport (Some Json) 0 ''r1'' ''ping'' JNull initial_client) = 0"
    by (simp add: rpcCall_def Let_def s initial_client_def)
  have e: "pending initial_client ''r1'' = None" "pending initial_client = Map.empty"
    by (simp_all add: initial_client_def)
  show ?thesis
    using rpcCall_failed_send [OF s, of initial_client 0
        "snd (rpcCall refusing_transport (Some Json) 0 ''r1'' ''ping'' JNull initial_client)"] f e
    by (simp add: prod_eq_iff)
qed

text \<open>
  Claim C10 as stated fails: \<open>uuid()\<close> is not checked against the ids in flight. When it
  returns \<open>r1\<close> while \<open>r1\<close> is the id of another pending call, the failed send removes
  that call's entry: the table is not the table before the call.
\<close>

theorem rpcCall_collision_counterexample:
  "pending r1_in_flight ''r1'' = Some 7
   \<and> pending (snd (rpcCall refusing_transport (Some Json) 0 ''r1'' ''ping'' JNull r1_in_flight)) ''r1'' = None
   \<and> pending (snd (rpcCall refusing_transport (Some Json) 0 ''r1'' ''ping'' JNull r1_in_flight))
       \<noteq> pending r1_in_flight"
proof -
  have a: "pending r1_in_flight ''r1'' = Some 7"
    by (simp add: r1_in_flight_def initial_client_def)
  have b: "pending (snd (rpcCall refusing_transport (Some Json) 0 ''r1'' ''ping'' JNull r1_in_flight)) ''r1'' = None"
    by (simp add: rpcCall_def Let_def try_send_def clientEncoding_def refusing_transport_def
          ping_request_def pending_delete_def reject_call_def)
  from a b have "pending (snd (rpcCall refusing_transport (Some Json) 0 ''r1'' ''ping'' JNull r1_in_flight))
       \<noteq> pending r1_in_flight"
    by (metis option.distinct(1))
  with a b show ?thesis by blast
qed

lemmas connection_defs =
  ensureSocketReady_def createSocket_def new_connectionPromise_def addEventListener_def
  removeEventListener_def cleanup_def resolve_conn_def reject_conn_def settle_def fire_def
  connecting_client_def initial_client_def Let_def

lemma ensureSocketReady_coalesces:
  assumes "connectionPromise st = Some p"
    and "\<And>ws. socket st = Some ws \<Longrightarrow> readyState (sockets st ws) \<noteq> OPEN"
  shows "ensureSocketReady st = (p, st)"
proof (cases "socket st")
  case None
  then show ?thesis using assms(1) by (simp add: ensureSocketReady_def)
next
  case (Some ws)
  with assms(2) have "readyState (sockets st ws) \<noteq> OPEN" by simp
  then show ?thesis
    using Some assms(1) by (cases "readyState (sockets st ws)") (simp_all add: ensureSocketReady_def)
qed

lemma close_while_connecting:
  assumes "socket st = Some ws"
    and "listeners (sockets st ws) = [OnClose, HandleOpen p, HandleError p, HandleClose p]"
  shows "conn_promises (fire Close ws st) = conn_promises st
         \<and> socket (fire Close ws st) = None
         \<and> connectionPromise (fire Close ws st) = None
         \<and> uncaught (fire Close ws st) = uncaught st @ [null_deref]"
  using assms by (simp add: fire_def cleanup_def)

lemma error_while_connecting:
  assumes "socket st = Some ws"
    and "listeners (sockets st ws) = [OnClose, HandleOpen p, HandleError p, HandleClose p]"
    and "conn_promises st p = Pending"
  shows "conn_promises (fire Error ws st) p = Rejected (ThrownError ''WebSocket connection failed'')
         \<and> socket (fire Error ws st) = None
         \<and> connectionPromise (fire Error ws st) = None
         \<and> listeners (sockets (fire Error ws st) ws) = [OnClose]
         \<and> uncaught (fire Error ws st) = uncaught st
         \<and> next_socket (fire Error ws st) = next_socket st"
  using assms
  by (simp add: fire_def cleanup_def removeEventListener_def reject_conn_def settle_def)

lemma open_while_connecting:
  assumes "socket st = Some ws"
    and "listeners (sockets st ws) = [OnClose, HandleOpen p, HandleError p, HandleClose p]"
    and "conn_promises st p = Pending"
  shows "conn_promises (fire Open ws st) p = Fulfilled ws
         \<and> socket (fire Open ws st) = Some ws
         \<and> connectionPromise (fire Open ws st) = None
         \<and> readyState (sockets (fire Open ws st) ws) = OPEN
         \<and> listeners (sockets (fire Open ws st) ws) = [OnClose]"
  using assms
  by (simp add: fire_def cleanup_def removeEventListener_def resolve_conn_def settle_def)

lemma fresh_attempt:
  assumes "socket st = None" and "connectionPromise st = None"
  shows "ensureSocketReady st = (next_conn_promise st, snd (ensureSocketReady st))
         \<and> socket (snd (ensureSocketReady st)) = Some (next_socket st)
         \<and> connectionPromise (snd (ensureSocketReady st)) = Some (next_conn_promise st)
         \<and> next_socket (snd (ensureSocketReady st)) = Suc (next_socket st)
         \<and> readyState (sockets (snd (ensureSocketReady st)) (next_socket st)) = CONNECTING
         \<and> listeners (sockets (snd (ensureSocketReady st)) (next_socket st))
             = [OnClose, HandleOpen (next_conn_promise st), HandleError (next_conn_promise st),
                HandleClose (next_conn_promise st)]
         \<and> conn_promises (snd (ensureSocketReady st)) (next_conn_promise st) = Pending"
  using assms
  by (simp add: ensureSocketReady_def createSocket_def new_connectionPromise_def addEventListener_def Let_def)

lemma second_call_while_connecting:
  "ensureSocketReady connecting_client = (0, connecting_client)"
  by (rule ensureSocketReady_coalesces) (simp_all add: connection_defs)

lemma error_event_rejects_and_resets:
  "conn_promises (fire Error 0 connecting_client) 0 = Rejected (ThrownError ''WebSocket connection failed'')
   \<and> socket (fire Error 0 connecting_client) = None
   \<and> connectionPromise (fire Error 0 connecting_client) = None
   \<and> uncaught (fire Close 0 (fire Error 0 connecting_client)) = []
   \<and> fst (ensureSocketReady (fire Close 0 (fire Error 0 connecting_client))) = 1
   \<and> socket (snd (ensureSocketReady (fire Close 0 (fire Error 0 connecting_client)))) = Some 1"
  by (simp add: connection_defs)

text \<open>
  Claim C4. Callers of \<open>ensureSocketReady\<close> share one promise while the socket connects,
  and a failed or prematurely closed attempt rejects it. The first call on a fresh
  client creates socket 0 and promise 0. When a close event then reaches the socket
  with no error event before it, \<open>ws.onclose\<close> runs first and sets \<open>socket\<close> to \<open>null\<close>;
  \<open>handleClose\<close> runs next and its \<open>cleanup()\<close> dereferences \<open>socket\<close>, so it throws
  before it reaches \<open>reject\<close>: promise 0 stays pending.
\<close>

theorem close_before_open_leaves_promise_pending:
  "ensureSocketReady initial_client = (0, connecting_client)
   \<and> listeners (sockets connecting_client 0) = [OnClose, HandleOpen 0, HandleError 0, HandleClose 0]
   \<and> conn_promises (fire Close 0 connecting_client) 0 = Pending
   \<and> uncaught (fire Close 0 connecting_client) = [null_deref]
   \<and> socket (fire Close 0 connecting_client) = None
   \<and> connectionPromise (fire Close 0 connecting_client) = None"
  by (simp add: connection_defs)


section \<open>Properties of the worker supervisor\<close>

lemmas supervisor_defs =
  startWorker_def resume_def loop_head_def on_catch_def set_task_def set_instance_def
  runningWorkers_delete_def Let_def

lemma run_to_end_Finished: "t_pc (tasks st r) = Finished \<Longrightarrow> run_to_end fuel r st = Some st"
  by (cases fuel) auto

lemma map_of_delete_same: "map_of (AList.delete k al) k = None"
  by (simp add: AList.delete_eq map_of_eq_None_iff image_iff)

lemma failing_attempt_cases:
  assumes "always_throws h" and "throws_convertible createContext"
  obtains (ctx) e m where "createContext k = Inl e" and "error_message e = Some m"
    | (sync) c e m where "createContext k = Inr c" and "h j c = ThrowsSync e" and "error_message e = Some m"
    | (rej) c e m where "createContext k = Inr c" and "h j c = Rejects e" and "error_message e = Some m"
proof (cases "createContext k")
  case (Inl e)
  with assms(2) have "error_message e \<noteq> None"
    by (simp add: throws_convertible_def convertible_def)
  with Inl ctx show ?thesis by blast
next
  case (Inr c)
  from assms(1) have f: "fails_at_once (h j c)"
    by (simp add: always_throws_def)
  show ?thesis
  proof (cases "h j c")
    case (ThrowsSync e)
    with f have "error_message e \<noteq> None" by (simp add: convertible_def)
    with Inr ThrowsSync sync show ?thesis by blast
  next
    case (Rejects e)
    with f have "error_message e \<noteq> None" by (simp add: convertible_def)
    with Inr Rejects rej show ?thesis by blast
  qed (use f in simp_all)
qed

text \<open>
  Two failed attempts end the run: the second crash makes \<open>restartCount\<close> 2, which is
  not below \<open>maxRestarts\<close>.
\<close>

lemma gives_up_after_two_crashes:
  assumes ar: "autoRestart (options w)" and mr: "maxRestarts (options w) = 2"
    and at: "always_throws (worker_handler w)" and tc: "throws_convertible createContext"
    and absent: "map_of (runningWorkers st) (worker_name w) = None"
  shows "\<exists>st'. run_to_end (Suc (Suc (Suc n))) (next_ref st) (snd (startWorker w createContext st)) = Some st'
            \<and> status (instances st' (next_ref st)) = Crashed
            \<and> restartCount (instances st' (next_ref st)) = 2
            \<and> t_rejected (tasks st' (next_ref st)) = None
            \<and> map_of (runningWorkers st') (worker_name w) = None"
proof -
  note unfold = supervisor_defs run_to_end_Finished map_of_delete_same
  from at tc show ?thesis
  proof (cases rule: failing_attempt_cases [where k = 0 and j = 0])
    case first: (ctx e m)
    from at tc show ?thesis
    proof (cases rule: failing_attempt_cases [where k = 1 and j = 0])
      case (ctx e' m')
      with first ar mr absent show ?thesis
        by (simp add: unfold)
    next
      case (sync c' e' m')
      with first ar mr absent show ?thesis
        by (simp add: unfold)
    next
      case (rej c' e' m')
      with first ar mr absent show ?thesis
        by (simp add: unfold)
    qed
  next
    case first: (sync c e m)
    from at tc show ?thesis
    proof (cases rule: failing_attempt_cases [where k = 1 and j = 1])
      case (ctx e' m')
      with first ar mr absent show ?thesis
        by (simp add: unfold)
    next
      case (sync c' e' m')
      with first ar mr absent show ?thesis
        by (simp add: unfold)
    next
      case (rej c' e' m')
      with first ar mr absent show ?thesis
        by (simp add: unfold)
    qed
  next
    case first: (rej c e m)
    from at tc show ?thesis
    proof (cases rule: failing_attempt_cases [where k = 1 and j = 1])
      case (ctx e' m')
      with first ar mr absent show ?thesis
        by (simp add: unfold)
    next
      case (sync c' e' m')
      with first ar mr absent show ?thesis
        by (simp add: unfold)
    next
      case (rej c' e' m')
      with first ar mr absent show ?thesis
        by (simp add: unfold)
    qed
  qed
qed

text \<open>
  When the context factory returns, each attempt invokes the handler: it runs twice.
\<close>

lemma two_crashes_then_give_up:
  assumes ar: "autoRestart (options w)" and mr: "maxRestarts (options w) = 2"
    and h0: "fails_at_once (worker_handler w 0 c0)" and h1: "fails_at_once (worker_handler w 1 c1)"
    and c0: "createContext 0 = Inr c0" and c1: "createContext 1 = Inr c1"
    and absent: "map_of (runningWorkers st) (worker_name w) = None"
  shows "\<exists>st'. run_to_end (Suc (Suc (Suc n))) (next_ref st) (snd (startWorker w createContext st)) = Some st'
            \<and> status (instances st' (next_ref st)) = Crashed
            \<and> t_runs (tasks st' (next_ref st)) = 2
            \<and> restartCount (instances st' (next_ref st)) = 2
            \<and> map_of (runningWorkers st') (worker_name w) = None"
proof (cases "worker_handler w 0 c0")
  case first: (ThrowsSync e0)
  with h0 obtain m0 where m0: "error_message e0 = Some m0"
    by (auto simp: convertible_def)
  show ?thesis
  proof (cases "worker_handler w 1 c1")
    case (ThrowsSync e1)
    with h1 obtain m1 where "error_message e1 = Some m1"
      by (auto simp: convertible_def)
    with first m0 ThrowsSync show ?thesis
      using ar mr c0 c1 absent
      by (simp add: supervisor_defs run_to_end_Finished map_of_delete_same)
  next
    case (Rejects e1)
    with h1 obtain m1 where "error_message e1 = Some m1"
      by (auto simp: convertible_def)
    with first m0 Rejects show ?thesis
      using ar mr c0 c1 absent
      by (simp add: supervisor_defs run_to_end_Finished map_of_delete_same)
  qed (use h1 in auto)
next
  case first: (Rejects e0)
  with h0 obtain m0 where m0: "error_message e0 = Some m0"
    by (auto simp: convertible_def)
  show ?thesis
  proof (cases "worker_handler w 1 c1")
    case (ThrowsSync e1)
    with h1 obtain m1 where "error_message e1 = Some m1"
      by (auto simp: convertible_def)
    with first m0 ThrowsSync show ?thesis
      using ar mr c0 c1 absent
      by (simp add: supervisor_defs run_to_end_Finished map_of_delete_same)
  next
    case (Rejects e1)
    with h1 obtain m1 where "error_message e1 = Some m1"
      by (auto simp: convertible_def)
    with first m0 Rejects show ?thesis
      using ar mr c0 c1 absent
      by (simp add: supervisor_defs run_to_end_Finished map_of_delete_same)
  qed (use h1 in auto)
qed (use h0 in auto)

text \<open>
  Claim C1, as the code has it. For a worker that is not yet listed, whose handler fails
  at once on every invocation with an \<open>Error\<close> or a value that \<open>String\<close> converts, with
  \<open>autoRestart = true\<close> and \<open>maxRestarts = 2\<close>, the run loop ends; the instance's final
  status is \<open>crashed\<close> (giving up deletes the worker from the map and leaves the status as
  the crash set it), and the worker is absent from the map and from both status queries.
\<close>

theorem restart_bound_gives_up:
  assumes "autoRestart (options w)" and "maxRestarts (options w) = 2"
    and "always_throws (worker_handler w)"
    and "throws_convertible createContext"
    and "map_of (runningWorkers st) (worker_name w) = None"
    and "startWorker w createContext st = (r, st1)"
    and "3 \<le> fuel"
  shows "\<exists>st'. run_to_end fuel r st1 = Some st'
            \<and> status (instances st' r) = Crashed
            \<and> getWorkerById (worker_name w) st' = None
            \<and> worker_name w \<notin> set (map fst (runningWorkers st'))"
proof -
  obtain n where n: "fuel = Suc (Suc (Suc n))"
    using assms(7) by (metis Suc_le_D numeral_3_eq_3 Suc_le_mono)
  have r: "r = next_ref st" and st1: "st1 = snd (startWorker w createContext st)"
    using assms(5,6) by (auto simp: startWorker_def Let_def)
  from gives_up_after_two_crashes [OF assms(1-5), of n]
  obtain st' where run: "run_to_end fuel r st1 = Some st'"
    and crashed: "status (instances st' r) = Crashed"
    and gone: "map_of (runningWorkers st') (worker_name w) = None"
    unfolding n r st1 by blast
  have "getWorkerById (worker_name w) st' = None"
    by (simp add: getWorkerById_def gone)
  moreover have "worker_name w \<notin> set (map fst (runningWorkers st'))"
    using gone by (simp add: map_of_eq_None_iff)
  ultimately show ?thesis
    using run crashed by blast
qed

text \<open>The crashing worker of the scenario, started on an empty supervisor.\<close>

theorem restart_bound_gives_up_witness:
  "\<exists>st'. run_to_end 3 0 (snd (startWorker crashing_worker example_createContext initial_supervisor)) = Some st'
      \<and> status (instances st' 0) = Crashed
      \<and> getWorkerById ''crashingWorker'' st' = None
      \<and> ''crashingWorker'' \<notin> set (map fst (runningWorkers st'))"
proof -
  have "fst (startWorker crashing_worker example_createContext initial_supervisor) = 0"
    by (simp add: startWorker_def initial_supervisor_def Let_def crashing_worker_def)
  then have s: "startWorker crashing_worker example_createContext initial_supervisor
            = (0, snd (startWorker crashing_worker example_createContext initial_supervisor))"
    by (simp add: prod_eq_iff)
  have a: "autoRestart (options crashing_worker)" "maxRestarts (options crashing_worker) = 2"
    "always_throws (worker_handler crashing_worker)"
    "throws_convertible example_createContext"
    "map_of (runningWorkers initial_supervisor) (worker_name crashing_worker) = None"
    by (simp_all add: crashing_worker_def always_throws_def throws_convertible_def convertible_def
          error_message_def example_createContext_def initial_supervisor_def)
  show ?thesis
    using restart_bound_gives_up [OF a s, of 3]
    by (simp add: crashing_worker_def)
qed

text \<open>
  Claim C1 as stated fails: in the scenario the handler runs twice, not three times, and
  the final status is \<open>crashed\<close>, not \<open>stopped\<close>. And when the handler rejects with the
  object \<open>{toString: 1}\<close>, which \<open>String\<close> cannot convert, the \<open>catch\<close> block itself
  throws: \<open>runWorker\<close> ends after one run and the worker stays listed as running.
\<close>

theorem restart_bound_counterexample:
  "map_option (run_summary 0)
     (run_to_end 3 0 (snd (startWorker crashing_worker example_createContext initial_supervisor)))
     = Some (2, Crashed, [])
   \<and> map_option (run_summary 0)
     (run_to_end 3 0 (snd (startWorker crashing_worker example_createContext initial_supervisor)))
     \<noteq> Some (3, Stopped, [])
   \<and> map_option (run_summary 0)
     (run_to_end 3 0 (snd (startWorker odd_worker example_createContext initial_supervisor)))
     = Some (1, Running, [''oddWorker''])"
proof -
  have eq: "map_option (run_summary 0)
     (run_to_end 3 0 (snd (startWorker crashing_worker example_createContext initial_supervisor)))
     = Some (2, Crashed, [])"
    by (simp add: numeral_3_eq_3 supervisor_defs run_summary_def crashing_worker_def
          example_createContext_def initial_supervisor_def error_message_def)
  have odd: "map_option (run_summary 0)
     (run_to_end 3 0 (snd (startWorker odd_worker example_createContext initial_supervisor)))
     = Some (1, Running, [''oddWorker''])"
    by (simp add: numeral_3_eq_3 supervisor_defs run_summary_def odd_worker_def
          example_createContext_def initial_supervisor_def error_message_def)
  show ?thesis
    unfolding eq odd by simp
qed

text \<open>
  Claim C8, as the code has it. A status query hands out the instance object the
  supervisor's map holds, not a copy: the object \<open>getWorkerById\<close> returns is among those
  \<open>getWorkerStatus\<close> returns, and what a caller writes to it is what the supervisor holds
  for that worker afterwards. The map itself, and so the result of both queries, is not
  changed by such a write.
\<close>

theorem status_query_returns_live_instance:
  assumes "getWorkerById n st = Some r"
  shows "r \<in> set (getWorkerStatus st)
         \<and> (\<exists>i. instance_state n st = Some i \<and> instance_state n (caller_writes r f st) = Some (f i))
         \<and> getWorkerStatus (caller_writes r f st) = getWorkerStatus st
         \<and> getWorkerById n (caller_writes r f st) = Some r"
proof -
  obtain w where w: "map_of (runningWorkers st) n = Some w" "instance_ref w = r"
    using assms by (auto simp: getWorkerById_def split: option.splits)
  then have "(n, w) \<in> set (runningWorkers st)"
    by (simp add: map_of_SomeD)
  then have "r \<in> set (getWorkerStatus st)"
    using w(2) by (force simp: getWorkerStatus_def)
  then show ?thesis
    using w by (simp add: instance_state_def caller_writes_def getWorkerStatus_def getWorkerById_def)
qed

text \<open>The running queue consumer, and a caller that overwrites two fields.\<close>

theorem status_query_returns_live_instance_witness:
  "0 \<in> set (getWorkerStatus consumer_running)
   \<and> (\<exists>i. instance_state ''queueConsumer'' consumer_running = Some i
          \<and> instance_state ''queueConsumer'' (caller_writes 0 tamper consumer_running) = Some (tamper i))"
proof -
  have "getWorkerById ''queueConsumer'' consumer_running = Some 0"
    by (simp add: getWorkerById_def consumer_running_def supervisor_defs queueConsumer_def
          example_createContext_def initial_supervisor_def)
  from status_query_returns_live_instance [OF this, of tamper] show ?thesis
    by blast
qed

text \<open>
  Claim C8 as stated fails: after the caller's write through the object returned for
  \<open>queueConsumer\<close>, the supervisor holds a different instance state for it.
\<close>

theorem status_snapshot_counterexample:
  "getWorkerById ''queueConsumer'' consumer_running = Some 0
   \<and> map_option status (instance_state ''queueConsumer'' consumer_running) = Some Running
   \<and> map_option status (instance_state ''queueConsumer'' (caller_writes 0 tamper consumer_running)) = Some Stopped"
  by (simp add: getWorkerById_def instance_state_def caller_writes_def tamper_def consumer_running_def
        supervisor_defs queueConsumer_def example_createContext_def initial_supervisor_def)

end
